theory Spec2Isabelle
  imports Main "HOL-Library.Word" "HOL-Library.Signed_Division"
begin

section \<open>Machine integers of the Go programs\<close>

text \<open>
  The programs are Go. \<open>int\<close> (on a 64-bit platform) and \<open>int64\<close> are 64-bit two's
  complement integers: \<open>+\<close>, \<open>-\<close> and \<open>*\<close> wrap around, \<open>/\<close> and \<open>%\<close> truncate
  towards zero, comparisons are signed. \<open>time.Duration\<close> is an \<open>int64\<close> that counts
  nanoseconds.
\<close>

type_synonym go_int = "64 word"
type_synonym Duration = "64 word"

definition quo :: "64 word \<Rightarrow> 64 word \<Rightarrow> 64 word" where
  \<comment> \<open>Go's \<open>a / b\<close> on signed integers\<close>
  "quo a b = word_of_int (sint a sdiv sint b)"

definition rem :: "64 word \<Rightarrow> 64 word \<Rightarrow> 64 word" where
  \<comment> \<open>Go's \<open>a % b\<close> on signed integers\<close>
  "rem a b = word_of_int (sint a smod sint b)"

definition Second :: Duration where "Second = 1000000000"
definition Minute :: Duration where "Minute = 60 * Second"
definition Hour :: Duration where "Hour = 60 * Minute"

definition minDuration :: Duration where "minDuration = - 9223372036854775808"
definition maxDuration :: Duration where "maxDuration = 9223372036854775807"

section \<open>Standard library: \<open>time.Duration.Round\<close>, \<open>strconv.Itoa\<close>, \<open>fmt\<close>'s \<open>%02d\<close>\<close>

text \<open>
  \<open>lessThanHalf\<close> and \<open>Round\<close> follow package \<open>time\<close>: \<open>lessThanHalf\<close> adds as
  \<open>uint64\<close> (the unsigned order of words), \<open>Round\<close> rounds halfway values away from
  zero and returns the largest or smallest duration where the rounded value does not fit.
\<close>

definition lessThanHalf :: "Duration \<Rightarrow> Duration \<Rightarrow> bool" where
  "lessThanHalf x y = (x + x < y)"

definition Round :: "Duration \<Rightarrow> Duration \<Rightarrow> Duration" where
  "Round d m =
    (if m \<le>s 0 then d
     else let r = rem d m in
       if d <s 0 then
         (let r = - r in
          if lessThanHalf r m then d + r
          else let d1 = d - m + r in
            if d1 <s d then d1 else minDuration)
       else
         if lessThanHalf r m then d - r
         else let d1 = d + m - r in
           if d <s d1 then d1 else maxDuration)"

fun digits :: "nat \<Rightarrow> string" where
  "digits n =
    (if n < 10 then [''0123456789'' ! n]
     else digits (n div 10) @ [''0123456789'' ! (n mod 10)])"

declare digits.simps [simp del]

definition Itoa :: "go_int \<Rightarrow> string" where
  \<comment> \<open>\<open>strconv.Itoa\<close>, and how \<open>text/template\<close> and \<open>%d\<close> print an integer\<close>
  "Itoa i = (if sint i < 0 then CHR ''-'' # digits (nat (- sint i)) else digits (nat (sint i)))"

definition zero_pad :: "nat \<Rightarrow> string \<Rightarrow> string" where
  "zero_pad prec ds = replicate (prec - length ds) (CHR ''0'') @ ds"

definition Sprintf_02d :: "64 word \<Rightarrow> string" where
  \<comment> \<open>\<open>%02d\<close>: at least two digits, or a sign and at least one digit\<close>
  "Sprintf_02d v =
    (if sint v < 0 then CHR ''-'' # zero_pad 1 (digits (nat (- sint v)))
     else zero_pad 2 (digits (nat (sint v))))"

section \<open>The Duration Formatter\<close>

text \<open>\<open>formatDuration\<close> is the same function in every program of the repository.\<close>

definition formatDuration :: "Duration \<Rightarrow> string" where
  "formatDuration d0 =
    (let d = Round d0 Second;
         h = quo d Hour;
         d = d - h * Hour;
         m = quo d Minute;
         d = d - m * Minute;
         s = quo d Second
     in Sprintf_02d h @ '':'' @ Sprintf_02d m @ '':'' @ Sprintf_02d s)"

text \<open>
  The contract in the specification's words: the nearest whole second of a duration in
  nanoseconds, and the zero-padded text of a number of seconds, hours not wrapped.
\<close>

definition nearest_second :: "int \<Rightarrow> nat" where
  "nearest_second ns = nat ((ns + 500000000) div 1000000000)"

definition two_digits :: "nat \<Rightarrow> string" where
  "two_digits n = (if n < 10 then CHR ''0'' # digits n else digits n)"

definition hhmmss :: "nat \<Rightarrow> string" where
  "hhmmss t = two_digits (t div 3600) @ '':'' @ two_digits (t div 60 mod 60) @ '':'' @ two_digits (t mod 60)"

fun split_on :: "char \<Rightarrow> string \<Rightarrow> string list" where
  "split_on sep [] = [[]]"
| "split_on sep (c # cs) =
    (if c = sep then [] # split_on sep cs
     else (case split_on sep cs of f # fs \<Rightarrow> (c # f) # fs | [] \<Rightarrow> [[c]]))"

definition is_digit :: "char \<Rightarrow> bool" where
  "is_digit c = (c \<in> set ''0123456789'')"

definition is_HHMMSS :: "string \<Rightarrow> bool" where
  \<comment> \<open>three colon-separated fields of digits: two or more for the hours, two and two\<close>
  "is_HHMMSS t =
    (case split_on (CHR '':'') t of
       [h, m, s] \<Rightarrow> 2 \<le> length h \<and> length m = 2 \<and> length s = 2 \<and> list_all is_digit (h @ m @ s)
     | _ \<Rightarrow> False)"

section \<open>Standard library: \<open>strings.Join\<close>, \<open>path.Join\<close>\<close>

fun Join :: "string list \<Rightarrow> string \<Rightarrow> string" where
  "Join [] sep = []"
| "Join [x] sep = x"
| "Join (x # y # ys) sep = x @ sep @ Join (y # ys) sep"

text \<open>
  \<open>path.Clean\<close> by its documented rules, on the elements between slashes: empty and
  \<open>.\<close> elements go, \<open>..\<close> removes the element before it, stays at the front of a
  path that is not rooted and goes at the front of a rooted one; the empty result is \<open>.\<close>.
  \<open>path.Join\<close> of two elements joins the non-empty ones with a slash and cleans.
\<close>

fun clean_elems :: "bool \<Rightarrow> string list \<Rightarrow> string list \<Rightarrow> string list" where
  "clean_elems rooted out [] = out"
| "clean_elems rooted out (e # es) =
    (if e = [] \<or> e = ''.'' then clean_elems rooted out es
     else if e = ''..'' then
       (if out \<noteq> [] \<and> last out \<noteq> ''..'' then clean_elems rooted (butlast out) es
        else if \<not> rooted then clean_elems rooted (out @ [''..'']) es
        else clean_elems rooted out es)
     else clean_elems rooted (out @ [e]) es)"

definition Clean :: "string \<Rightarrow> string" where
  "Clean p =
    (if p = [] then ''.''
     else let rooted = (hd p = CHR ''/'');
              out = (if rooted then ''/'' else []) @ Join (clean_elems rooted [] (split_on (CHR ''/'') p)) ''/''
          in if out = [] then ''.'' else out)"

definition path_Join :: "string \<Rightarrow> string \<Rightarrow> string" where
  "path_Join a b =
    (if length a + length b = 0 then []
     else Clean (if a = [] then b else a @ ''/'' @ b))"

section \<open>Standard library: the fragment of \<open>text/template\<close> that is embedded\<close>

text \<open>
  A template is text with actions between \<open>{{\<close> and \<open>}}\<close>. The embedding covers the
  templates whose every action is a field of the data, written \<open>{{.Field}}\<close> with
  nothing else between the delimiters: these are the templates in the programs' own text.
  \<open>Parse\<close> is \<open>None\<close> on any other template, \<open>Execute\<close> is \<open>None\<close> on a field the
  embedding does not print. What \<open>ExecTemplate\<close> returns then is the parameter
  \<open>engine\<close> of the functions below, so every theorem holds whatever the real package
  does outside the fragment. A field's value is written as \<open>fmt\<close> prints it: a string as
  it is, an integer in decimal, a boolean as \<open>true\<close> or \<open>false\<close>; it is not parsed again.
\<close>

datatype node = TextNode string | FieldNode string

definition is_alnum :: "char \<Rightarrow> bool" where
  "is_alnum c = (c \<in> set ''abcdefghijklmnopqrstuvwxyzABCDEFGHIJKLMNOPQRSTUVWXYZ0123456789_'')"

fun lexText :: "string \<Rightarrow> string \<Rightarrow> node list option"
  and lexField :: "string \<Rightarrow> string \<Rightarrow> node list option" where
  "lexText acc [] = Some [TextNode acc]"
| "lexText acc [c] = Some [TextNode (acc @ [c])]"
| "lexText acc (c # d # cs) =
    (if c = CHR ''{'' \<and> d = CHR ''{'' then
       (case cs of
          [] \<Rightarrow> None
        | e # es \<Rightarrow> if e = CHR ''.'' then map_option ((#) (TextNode acc)) (lexField [] es) else None)
     else lexText (acc @ [c]) (d # cs))"
| "lexField acc [] = None"
| "lexField acc [c] = None"
| "lexField acc (c # d # cs) =
    (if c = CHR ''}'' \<and> d = CHR ''}'' then map_option ((#) (FieldNode acc)) (lexText [] cs)
     else if is_alnum c then lexField (acc @ [c]) (d # cs)
     else None)"

definition Parse :: "string \<Rightarrow> node list option" where
  "Parse ts = lexText [] ts"

fun Execute :: "node list \<Rightarrow> (string \<Rightarrow> string option) \<Rightarrow> string option" where
  "Execute [] fields = Some []"
| "Execute (TextNode t # ns) fields = map_option ((@) t) (Execute ns fields)"
| "Execute (FieldNode f # ns) fields =
    (case fields f of None \<Rightarrow> None | Some v \<Rightarrow> map_option ((@) v) (Execute ns fields))"

fun has_action :: "string \<Rightarrow> bool" where
  \<comment> \<open>the text contains the left delimiter\<close>
  "has_action (c # d # cs) = (c = CHR ''{'' \<and> d = CHR ''{'' \<or> has_action (d # cs))"
| "has_action cs = False"

definition print_bool :: "bool \<Rightarrow> string" where
  "print_bool b = (if b then ''true'' else ''false'')"

section \<open>Errors\<close>

text \<open>
  A Go \<open>error\<close> is modelled by its message; \<open>fmt.Errorf(prefix + "%w", err)\<close> puts the
  prefix before the message of \<open>err\<close>. A function that returns \<open>(string, error)\<close>
  returns \<open>Inl\<close> the error (its string is then empty in Go) or \<open>Inr\<close> the string.
\<close>

datatype error = Error string

fun Errorf :: "string \<Rightarrow> error \<Rightarrow> error" where
  "Errorf prefix (Error msg) = Error (prefix @ msg)"

definition BatchPBS :: string where "BatchPBS = ''pbs''"
definition BatchSlurm :: string where "BatchSlurm = ''slurm''"
definition BatchBare :: string where "BatchBare = ''bare''"
definition BatchAutodetect :: string where "BatchAutodetect = ''autodetect''"
definition BatchUnsupported :: string where "BatchUnsupported = ''unsupported''"

section \<open>The earlier programs: PBS only\<close>

text \<open>
  The repository holds several programs, each a \<open>package main\<close> of its own with its own
  \<open>Config\<close> and, in the earlier ones, one method \<open>Config.PBS\<close> that writes the whole
  script. Three of them are embedded here under the name of their file: \<open>begin.go\<close>
  (\<open>Config_begin\<close>, \<open>PBS_begin\<close>), the second unnamed file (\<open>Config_002\<close>,
  \<open>PBS_002\<close>) and the last program of the first unnamed file, which has no pre-script,
  post-script or working-directory step (\<open>Config_001\<close>, \<open>PBS_001\<close>). A
  \<open>strings.Builder\<close> is the string written so far; \<open>WriteString\<close> appends.
\<close>

record Config_001 =
  Name :: string
  NumberOfNodes :: go_int
  NodeType :: string
  NumberOfMPIRanksPerNode :: go_int
  NumberOfOMPThreadsPerProcess :: go_int
  Walltime :: Duration
  Email :: string
  LogDirectory :: string
  LoadModules :: "string list"
  WorkingDirectory :: string
  EntryPoint :: string

definition PBS_001 :: "Config_001 \<Rightarrow> string" where
  "PBS_001 config =
    (let builder = [];
         NumberOfMPIRanks = Config_001.NumberOfNodes config * Config_001.NumberOfMPIRanksPerNode config;
         OutputFile = path_Join (Config_001.LogDirectory config) (Config_001.Name config @ ''.out'');
         ErrorFile = path_Join (Config_001.LogDirectory config) (Config_001.Name config @ ''.err'');
         builder = builder @
           (''#!/bin/bash -l\<newline>#PBS -N '' @ Config_001.Name config @
            ''\<newline>#PBS -e '' @ ErrorFile @
            ''\<newline>#PBS -o '' @ OutputFile @
            ''\<newline>#PBS -m abe\<newline>#PBS -M '' @ Config_001.Email config @
            ''\<newline>#PBS -l select='' @ Itoa (Config_001.NumberOfNodes config) @
            '':node_type='' @ Config_001.NodeType config @
            '':mpiprocs='' @ Itoa NumberOfMPIRanks @
            '':ompthreads='' @ Itoa (Config_001.NumberOfOMPThreadsPerProcess config) @
            ''\<newline>#PBS -l walltime='' @ formatDuration (Config_001.Walltime config) @
            ''\<newline>'');
         builder = foldl (\<lambda>b module. b @ (''module load '' @ module @ ''\<newline>'')) builder
                     (Config_001.LoadModules config);
         builder = builder @
           (''time mpirun'' @
            '' -x OMP_DISPLAY_ENV=TRUE'' @
            '' -x OMP_NUM_THREADS='' @ Itoa (Config_001.NumberOfOMPThreadsPerProcess config) @
            '' -x OMP_PLACES=cores'' @
            '' -n '' @ Itoa NumberOfMPIRanks @
            '' --map-by l3cache'' @
            '' --bind-to l3cache'' @
            '' '' @ Config_001.EntryPoint config)
     in builder)"

record Config_begin =
  Name :: string
  NumberOfNodes :: go_int
  NodeType :: string
  NumberOfMPIRanksPerNode :: go_int
  NumberOfOMPThreadsPerProcess :: go_int
  Walltime :: Duration
  Email :: string
  LogDirectory :: string
  LoadModules :: "string list"
  WorkingDirectory :: string
  PreScript :: "string list"
  EntryPoint :: string
  PostScript :: "string list"

definition PBS_begin :: "Config_begin \<Rightarrow> string" where
  "PBS_begin config =
    (let builder = [];
         NumberOfMPIRanks = Config_begin.NumberOfNodes config * Config_begin.NumberOfMPIRanksPerNode config;
         OutputFile = path_Join (Config_begin.LogDirectory config) (Config_begin.Name config @ ''.out'');
         ErrorFile = path_Join (Config_begin.LogDirectory config) (Config_begin.Name config @ ''.err'');
         builder = builder @
           (''#!/bin/bash -l\<newline>#PBS -N '' @ Config_begin.Name config @
            ''\<newline>#PBS -e '' @ ErrorFile @
            ''\<newline>#PBS -o '' @ OutputFile @
            ''\<newline>#PBS -m abe\<newline>#PBS -M '' @ Config_begin.Email config @
            ''\<newline>#PBS -l select='' @ Itoa (Config_begin.NumberOfNodes config) @
            '':node_type='' @ Config_begin.NodeType config @
            '':mpiprocs='' @ Itoa (Config_begin.NumberOfMPIRanksPerNode config) @
            '':ompthreads='' @ Itoa (Config_begin.NumberOfOMPThreadsPerProcess config) @
            ''\<newline>#PBS -l walltime='' @ formatDuration (Config_begin.Walltime config) @
            ''\<newline>\<newline>'');
         builder = foldl (\<lambda>b module. b @ (''module load '' @ module @ ''\<newline>'')) builder
                     (Config_begin.LoadModules config);
         builder = builder @ ''\<newline>'';
         builder = foldl (\<lambda>b cmd. b @ (cmd @ ''\<newline>'')) builder (Config_begin.PreScript config);
         builder = builder @ ''\<newline>'';
         builder = (if Config_begin.WorkingDirectory config \<noteq> []
                    then builder @ (''cd '' @ Config_begin.WorkingDirectory config @ ''\<newline>'')
                    else builder);
         builder = builder @ ''\<newline>'';
         builder = builder @
           (''time mpirun'' @
            '' -x OMP_DISPLAY_ENV=TRUE'' @
            '' -x OMP_NUM_THREADS='' @ Itoa (Config_begin.NumberOfOMPThreadsPerProcess config) @
            '' -x OMP_PLACES=cores'' @
            '' -n '' @ Itoa NumberOfMPIRanks @
            '' --map-by node:PE='' @ Itoa (Config_begin.NumberOfOMPThreadsPerProcess config) @
            '' --bind-to core'' @
            '' '' @ Config_begin.EntryPoint config @ ''\<newline>'');
         builder = builder @ ''\<newline>'';
         builder = foldl (\<lambda>b cmd. b @ (cmd @ ''\<newline>'')) builder (Config_begin.PostScript config)
     in builder)"

record Config_002 =
  Name :: string
  NumberOfNodes :: go_int
  NodeType :: string
  NumberOfMPIRanksPerNode :: go_int
  NumberOfOMPThreadsPerProcess :: go_int
  Walltime :: Duration
  Email :: string
  LogDirectory :: string
  PrintOMPEnvironment :: bool
  LoadModules :: "string list"
  WorkingDirectory :: string
  PreScript :: "string list"
  EntryPoint :: string
  PostScript :: "string list"

record MPIRunConfig =
  Config :: Config_002
  NumberOfMPIRanks :: go_int

definition NewMPIRunConfig :: "Config_002 \<Rightarrow> MPIRunConfig" where
  "NewMPIRunConfig c =
    (let cc = \<lparr> MPIRunConfig.Config = c,
                 MPIRunConfig.NumberOfMPIRanks =
                   Config_002.NumberOfNodes c * Config_002.NumberOfMPIRanksPerNode c \<rparr>
     in cc)"

definition fields_002 :: "MPIRunConfig \<Rightarrow> string \<Rightarrow> string option" where
  \<comment> \<open>the fields of \<open>MPIRunConfig\<close> and of the \<open>Config\<close> it embeds that the embedding prints\<close>
  "fields_002 s =
    (let c = MPIRunConfig.Config s in
     map_of
      [(''Name'', Config_002.Name c),
       (''NumberOfNodes'', Itoa (Config_002.NumberOfNodes c)),
       (''NodeType'', Config_002.NodeType c),
       (''NumberOfMPIRanksPerNode'', Itoa (Config_002.NumberOfMPIRanksPerNode c)),
       (''NumberOfOMPThreadsPerProcess'', Itoa (Config_002.NumberOfOMPThreadsPerProcess c)),
       (''Email'', Config_002.Email c),
       (''LogDirectory'', Config_002.LogDirectory c),
       (''PrintOMPEnvironment'', print_bool (Config_002.PrintOMPEnvironment c)),
       (''WorkingDirectory'', Config_002.WorkingDirectory c),
       (''EntryPoint'', Config_002.EntryPoint c),
       (''NumberOfMPIRanks'', Itoa (MPIRunConfig.NumberOfMPIRanks s))])"

definition ExecTemplate_002 ::
  "(string \<Rightarrow> MPIRunConfig \<Rightarrow> error + string) \<Rightarrow> string \<Rightarrow> MPIRunConfig \<Rightarrow> error + string" where
  "ExecTemplate_002 engine ts s =
    (case Parse ts of
       None \<Rightarrow> engine ts s
     | Some t \<Rightarrow>
        (case Execute t (fields_002 s) of
           None \<Rightarrow> engine ts s
         | Some text \<Rightarrow> Inr text))"

definition PBS_002 ::
  "(string \<Rightarrow> MPIRunConfig \<Rightarrow> error + string) \<Rightarrow> Config_002 \<Rightarrow> error + string" where
  "PBS_002 engine config =
    (let builder = [];
         OutputFile = path_Join (Config_002.LogDirectory config) (Config_002.Name config @ ''.out'');
         ErrorFile = path_Join (Config_002.LogDirectory config) (Config_002.Name config @ ''.err'');
         builder = builder @
           (''#!/bin/bash -l\<newline>#PBS -N '' @ Config_002.Name config @
            ''\<newline>#PBS -e '' @ ErrorFile @
            ''\<newline>#PBS -o '' @ OutputFile @
            ''\<newline>#PBS -m abe\<newline>#PBS -M '' @ Config_002.Email config @
            ''\<newline>#PBS -l select='' @ Itoa (Config_002.NumberOfNodes config) @
            '':node_type='' @ Config_002.NodeType config @
            '':mpiprocs='' @ Itoa (Config_002.NumberOfMPIRanksPerNode config) @
            '':ompthreads='' @ Itoa (Config_002.NumberOfOMPThreadsPerProcess config) @
            ''\<newline>#PBS -l walltime='' @ formatDuration (Config_002.Walltime config) @
            ''\<newline>\<newline>'');
         builder = foldl (\<lambda>b module. b @ (''module load '' @ module @ ''\<newline>'')) builder
                     (Config_002.LoadModules config);
         builder = builder @ ''\<newline>'';
         builder = foldl (\<lambda>b cmd. b @ (cmd @ ''\<newline>'')) builder (Config_002.PreScript config);
         builder = builder @ ''\<newline>'';
         builder = (if Config_002.WorkingDirectory config \<noteq> []
                    then builder @ (''cd '' @ Config_002.WorkingDirectory config @ ''\<newline>'')
                    else builder);
         builder = builder @ ''\<newline>''
     in case ExecTemplate_002 engine
               (''time mpirun'' @
                '' -x OMP_NUM_THREADS={{.NumberOfOMPThreadsPerProcess}}'' @
                '' -x OMP_PLACES=cores'' @
                '' -n {{.NumberOfMPIRanks}}'' @
                '' --map-by node:PE={{.NumberOfOMPThreadsPerProcess}}'' @
                '' --bind-to core'')
               (NewMPIRunConfig config) of
          Inl err \<Rightarrow> Inl (Errorf ''create mpirun string: '' err)
        | Inr mpirunString \<Rightarrow>
           (let builder = builder @ (mpirunString @ '' '' @ Config_002.EntryPoint config @ ''\<newline>'');
                builder = builder @ ''\<newline>'';
                builder = foldl (\<lambda>b cmd. b @ (cmd @ ''\<newline>'')) builder (Config_002.PostScript config)
            in Inr builder))"

section \<open>The program with three batch systems\<close>

text \<open>
  The first unnamed file: \<open>Config\<close>, the derived fields of \<open>ExtendedConfig\<close>, one header
  writer for each batch system, \<open>JobData\<close> that composes the script, and the part of
  \<open>run\<close> after the job file is decoded.
\<close>

record Config =
  Name :: string
  NumberOfNodes :: go_int
  NodeType :: string
  NumberOfMPIRanksPerNode :: go_int
  NumberOfOMPThreadsPerProcess :: go_int
  Walltime :: Duration
  Email :: string
  LogDirectory :: string
  PrintOMPEnvironment :: bool
  ModulesPreScript :: "string list"
  LoadModules :: "string list"
  WorkingDirectory :: string
  PreScript :: "string list"
  RunTime :: "string list"
  Executable :: string
  Arguments :: "string list"
  PostScript :: "string list"

record ExtendedConfig =
  Config :: Config
  NumberOfMPIRanks :: go_int
  NumberOfTasksPerNode :: go_int
  WalltimeString :: string
  OutputFile :: string
  ErrorFile :: string

definition NewExtendedConfig :: "Config \<Rightarrow> ExtendedConfig" where
  "NewExtendedConfig c =
    (let cc = \<lparr> ExtendedConfig.Config = c,
                 ExtendedConfig.NumberOfMPIRanks = NumberOfNodes c * NumberOfMPIRanksPerNode c,
                 NumberOfTasksPerNode = 1,
                 WalltimeString = formatDuration (Walltime c),
                 OutputFile = path_Join (LogDirectory c) (Name c @ ''.out''),
                 ErrorFile = path_Join (LogDirectory c) (Name c @ ''.err'') \<rparr>
     in if NumberOfMPIRanksPerNode c = 0 then cc\<lparr> NumberOfTasksPerNode := 1 \<rparr> else cc)"

definition fields :: "ExtendedConfig \<Rightarrow> string \<Rightarrow> string option" where
  \<comment> \<open>the fields of \<open>ExtendedConfig\<close> and of the \<open>Config\<close> it embeds that the embedding prints\<close>
  "fields s =
    (let c = ExtendedConfig.Config s in
     map_of
      [(''Name'', Name c),
       (''NumberOfNodes'', Itoa (NumberOfNodes c)),
       (''NodeType'', NodeType c),
       (''NumberOfMPIRanksPerNode'', Itoa (NumberOfMPIRanksPerNode c)),
       (''NumberOfOMPThreadsPerProcess'', Itoa (NumberOfOMPThreadsPerProcess c)),
       (''Email'', Email c),
       (''LogDirectory'', LogDirectory c),
       (''PrintOMPEnvironment'', print_bool (PrintOMPEnvironment c)),
       (''WorkingDirectory'', WorkingDirectory c),
       (''Executable'', Executable c),
       (''NumberOfMPIRanks'', Itoa (ExtendedConfig.NumberOfMPIRanks s)),
       (''NumberOfTasksPerNode'', Itoa (NumberOfTasksPerNode s)),
       (''WalltimeString'', WalltimeString s),
       (''OutputFile'', OutputFile s),
       (''ErrorFile'', ErrorFile s)])"

type_synonym engine = "string \<Rightarrow> ExtendedConfig \<Rightarrow> error + string"

definition ExecTemplate :: "engine \<Rightarrow> string \<Rightarrow> ExtendedConfig \<Rightarrow> error + string" where
  "ExecTemplate engine ts s =
    (case Parse ts of
       None \<Rightarrow> engine ts s
     | Some t \<Rightarrow>
        (case Execute t (fields s) of
           None \<Rightarrow> engine ts s
         | Some text \<Rightarrow> Inr text))"

definition writePBSHeader :: "engine \<Rightarrow> Config \<Rightarrow> string \<Rightarrow> error + string" where
  "writePBSHeader engine config builder =
    (case ExecTemplate engine
            (''#!/bin/bash -l\<newline>#PBS -N {{.Name}}\<newline>#PBS -e {{.ErrorFile}}\<newline>#PBS -o {{.OutputFile}}\<newline>#PBS -m abe\<newline>#PBS -M {{.Email}}\<newline>#PBS -l select={{.NumberOfNodes}}'' @
             '':node_type={{.NodeType}}'' @
             '':mpiprocs={{.NumberOfMPIRanksPerNode}}'' @
             '':ompthreads={{.NumberOfOMPThreadsPerProcess}}'' @
             ''\<newline>#PBS -l walltime={{.WalltimeString}}\<newline>'')
            (NewExtendedConfig config) of
       Inl err \<Rightarrow> Inl (Errorf ''execute template: '' err)
     | Inr pbsString \<Rightarrow> Inr ((builder @ pbsString) @ ''\<newline>''))"

definition writeSlurmHeader :: "engine \<Rightarrow> Config \<Rightarrow> string \<Rightarrow> error + string" where
  "writeSlurmHeader engine config builder =
    (case ExecTemplate engine
            ''#!/bin/bash -l\<newline>#SBATCH -J {{.Name}}\<newline>#SBATCH -o {{.OutputFile}}\<newline>#SBATCH -e {{.ErrorFile}}\<newline>#SBATCH --mail-type=ALL\<newline>#SBATCH --mail-user={{.Email}}\<newline>#SBATCH --nodes {{.NumberOfNodes}}\<newline>#SBATCH --ntasks-per-node {{.NumberOfTasksPerNode}}\<newline>#SBATCH --time={{.WalltimeString}}\<newline>''
            (NewExtendedConfig config) of
       Inl err \<Rightarrow> Inl (Errorf ''execute template: '' err)
     | Inr pbsString \<Rightarrow> Inr ((builder @ pbsString) @ ''\<newline>''))"

definition writeBareHeader :: "engine \<Rightarrow> Config \<Rightarrow> string \<Rightarrow> error + string" where
  "writeBareHeader engine config builder =
    (case ExecTemplate engine ''#!/bin/bash -l\<newline>'' (NewExtendedConfig config) of
       Inl err \<Rightarrow> Inl (Errorf ''execute template: '' err)
     | Inr pbsString \<Rightarrow> Inr ((builder @ pbsString) @ ''\<newline>''))"

definition JobData :: "engine \<Rightarrow> Config \<Rightarrow> string \<Rightarrow> error + string" where
  "JobData engine config batchSystem =
    (case
       (if batchSystem = BatchPBS then
          (case writePBSHeader engine config [] of
             Inl err \<Rightarrow> Inl (Errorf ''write PBS header: '' err)
           | Inr builder \<Rightarrow> Inr builder)
        else if batchSystem = BatchSlurm then
          (case writeSlurmHeader engine config [] of
             Inl err \<Rightarrow> Inl (Errorf ''write Slurm header: '' err)
           | Inr builder \<Rightarrow> Inr builder)
        else if batchSystem = BatchBare then
          (case writeBareHeader engine config [] of
             Inl err \<Rightarrow> Inl (Errorf ''write bare header: '' err)
           | Inr builder \<Rightarrow> Inr builder)
        else Inr [])
     of
       Inl err \<Rightarrow> Inl err
     | Inr builder \<Rightarrow>
        (let builder = foldl (\<lambda>b cmd. b @ (cmd @ ''\<newline>'')) builder (ModulesPreScript config);
             builder = builder @ ''\<newline>'';
             builder = foldl (\<lambda>b module. b @ (''module load '' @ module @ ''\<newline>'')) builder
                         (LoadModules config);
             builder = builder @ ''\<newline>'';
             builder = foldl (\<lambda>b cmd. b @ (cmd @ ''\<newline>'')) builder (PreScript config);
             builder = builder @ ''\<newline>'';
             builder = (if WorkingDirectory config \<noteq> []
                        then builder @ (''cd '' @ WorkingDirectory config @ ''\<newline>'')
                        else builder);
             builder = builder @ ''\<newline>'';
             task = []
         in case
              (if 0 <s NumberOfMPIRanksPerNode config then
                 (case ExecTemplate engine ''time mpirun -n {{.NumberOfMPIRanks}}''
                         (NewExtendedConfig config) of
                    Inl err \<Rightarrow> Inl (Errorf ''create mpirun string: '' err)
                  | Inr mpirunString \<Rightarrow>
                     Inr (if mpirunString \<noteq> [] then task @ [mpirunString] else task))
               else Inr task)
            of
              Inl err \<Rightarrow> Inl err
            | Inr task \<Rightarrow>
               (let task = (if 0 < length (RunTime config)
                            then task @ [Join (RunTime config) '' ''] else task);
                    task = task @ [Executable config];
                    task = (if 0 < length (Arguments config)
                            then task @ [Join (Arguments config) '' ''] else task);
                    rawTaskString = Join task '' ''
                in case ExecTemplate engine rawTaskString (NewExtendedConfig config) of
                     Inl err \<Rightarrow> Inl (Errorf ''exec task string template: '' err)
                   | Inr taskStringResult \<Rightarrow>
                      (let builder = builder @ taskStringResult;
                           builder = builder @ ''\<newline>'';
                           builder = foldl (\<lambda>b cmd. b @ (cmd @ ''\<newline>'')) builder
                                       (PostScript config)
                       in Inr builder))))"

text \<open>
  \<open>DetectBatchSystem\<close> asks the host which executables are on the search path; the
  answer of \<open>exec.LookPath\<close> is the parameter \<open>onPath\<close>. \<open>run\<close> starts where the Go
  function has the value of the flag \<open>-b\<close> and the decoded job file; its result is the
  error it returns or the text it prints.
\<close>

definition DetectBatchSystem :: "(string \<Rightarrow> bool) \<Rightarrow> string" where
  "DetectBatchSystem onPath =
    (if onPath ''qsub'' then BatchPBS
     else if onPath ''squeue'' then BatchSlurm
     else if onPath ''bash'' then BatchBare
     else BatchUnsupported)"

definition run :: "(string \<Rightarrow> bool) \<Rightarrow> engine \<Rightarrow> string \<Rightarrow> Config \<Rightarrow> error + string" where
  "run onPath engine flag config =
    (let batchSystem = (if flag = BatchAutodetect then DetectBatchSystem onPath else flag)
     in if batchSystem = BatchUnsupported then Inl (Error ''unsupported platform'')
        else (case JobData engine config batchSystem of
                Inl err \<Rightarrow> Inl (Errorf ''getting job data: '' err)
              | Inr jobData \<Rightarrow> Inr (jobData @ ''\<newline>'')))"

section \<open>The script by its sections\<close>

text \<open>
  The sections of the script in the specification's words, to state what \<open>JobData\<close>
  writes: the header of each batch system, the module and pre-script groups with their
  separators, the working-directory step, the launcher segment and the job's own command,
  and the lines of a script.
\<close>

definition lines_text :: "string list \<Rightarrow> string" where
  \<comment> \<open>every element followed by a line break\<close>
  "lines_text xs = concat (map (\<lambda>x. x @ ''\<newline>'') xs)"

definition header_text :: "Config \<Rightarrow> string \<Rightarrow> string" where
  "header_text c batchSystem =
    (if batchSystem = ''pbs'' then
       ''#!/bin/bash -l\<newline>#PBS -N '' @ Name c @
       ''\<newline>#PBS -e '' @ path_Join (LogDirectory c) (Name c @ ''.err'') @
       ''\<newline>#PBS -o '' @ path_Join (LogDirectory c) (Name c @ ''.out'') @
       ''\<newline>#PBS -m abe\<newline>#PBS -M '' @ Email c @
       ''\<newline>#PBS -l select='' @ Itoa (NumberOfNodes c) @
       '':node_type='' @ NodeType c @
       '':mpiprocs='' @ Itoa (NumberOfMPIRanksPerNode c) @
       '':ompthreads='' @ Itoa (NumberOfOMPThreadsPerProcess c) @
       ''\<newline>#PBS -l walltime='' @ formatDuration (Walltime c) @ ''\<newline>\<newline>''
     else if batchSystem = ''slurm'' then
       ''#!/bin/bash -l\<newline>#SBATCH -J '' @ Name c @
       ''\<newline>#SBATCH -o '' @ path_Join (LogDirectory c) (Name c @ ''.out'') @
       ''\<newline>#SBATCH -e '' @ path_Join (LogDirectory c) (Name c @ ''.err'') @
       ''\<newline>#SBATCH --mail-type=ALL\<newline>#SBATCH --mail-user='' @ Email c @
       ''\<newline>#SBATCH --nodes '' @ Itoa (NumberOfNodes c) @
       ''\<newline>#SBATCH --ntasks-per-node 1'' @
       ''\<newline>#SBATCH --time='' @ formatDuration (Walltime c) @ ''\<newline>\<newline>''
     else if batchSystem = ''bare'' then ''#!/bin/bash -l\<newline>\<newline>''
     else [])"

definition setup_text :: "Config \<Rightarrow> string" where
  "setup_text c =
    lines_text (ModulesPreScript c) @ ''\<newline>'' @
    lines_text (map ((@) ''module load '') (LoadModules c)) @ ''\<newline>'' @
    lines_text (PreScript c) @ ''\<newline>''"

definition cd_text :: "Config \<Rightarrow> string" where
  "cd_text c = (if WorkingDirectory c = [] then [] else ''cd '' @ WorkingDirectory c @ ''\<newline>'')"

definition launcher :: "Config \<Rightarrow> string" where
  \<comment> \<open>the launcher segment with the blank after it, or nothing\<close>
  "launcher c =
    (if 0 <s NumberOfMPIRanksPerNode c
     then ''time mpirun -n '' @ Itoa (NumberOfNodes c * NumberOfMPIRanksPerNode c) @ '' ''
     else [])"

definition command :: "Config \<Rightarrow> string" where
  \<comment> \<open>the job's own part of the task line: runtime prefix, executable, arguments\<close>
  "command c =
    Join ((if RunTime c = [] then [] else [Join (RunTime c) '' '']) @
          [Executable c] @
          (if Arguments c = [] then [] else [Join (Arguments c) '' ''])) '' ''"

definition starts_with :: "string \<Rightarrow> string \<Rightarrow> bool" where
  "starts_with p s = (take (length p) s = p)"

definition script_lines :: "string \<Rightarrow> string list" where
  "script_lines script = split_on (CHR ''\<newline>'') script"

definition cd_lines :: "string \<Rightarrow> string list" where
  "cd_lines script = filter (starts_with ''cd '') (script_lines script)"

definition launcher_lines :: "string \<Rightarrow> string list" where
  "launcher_lines script = filter (starts_with ''time mpirun'') (script_lines script)"


section \<open>Example jobs\<close>

text \<open>
  The job of the specification's end-to-end examples, for each program that the examples
  below run, and a template engine for the closed examples: their templates are inside
  the embedded fragment, so it is never asked.
\<close>

definition job :: Config where
  "job = \<lparr> Config.Name = ''run1'', NumberOfNodes = 2, NodeType = ''rome'',
           NumberOfMPIRanksPerNode = 4, NumberOfOMPThreadsPerProcess = 2,
           Walltime = 3661 * Second, Email = ''ops@example.org'', LogDirectory = ''logs'',
           PrintOMPEnvironment = False, ModulesPreScript = [], LoadModules = [],
           WorkingDirectory = [], PreScript = [], RunTime = [], Executable = ''./sim'',
           Arguments = [''--fast''], PostScript = [] \<rparr>"

definition job_begin :: Config_begin where
  "job_begin = \<lparr> Config_begin.Name = ''run1'', NumberOfNodes = 2, NodeType = ''rome'',
           NumberOfMPIRanksPerNode = 4, NumberOfOMPThreadsPerProcess = 2,
           Walltime = 3661 * Second, Email = ''ops@example.org'', LogDirectory = ''logs'',
           LoadModules = [], WorkingDirectory = [], PreScript = [],
           EntryPoint = ''./sim --fast'', PostScript = [] \<rparr>"

definition job_001 :: Config_001 where
  "job_001 = \<lparr> Config_001.Name = ''run1'', NumberOfNodes = 2, NodeType = ''rome'',
           NumberOfMPIRanksPerNode = 4, NumberOfOMPThreadsPerProcess = 2,
           Walltime = 3661 * Second, Email = ''ops@example.org'', LogDirectory = ''logs'',
           LoadModules = [], WorkingDirectory = [], EntryPoint = ''./sim --fast'' \<rparr>"

definition no_engine :: engine where
  "no_engine ts s = Inl (Error ''template outside the embedded fragment'')"

section \<open>Signed 64-bit arithmetic\<close>

lemma sint_Second: "sint Second = 1000000000"
  by (simp add: Second_def)

lemma sint_Minute: "sint Minute = 60000000000"
  by (simp add: Minute_def Second_def)

lemma sint_Hour: "sint Hour = 3600000000000"
  by (simp add: Hour_def Minute_def Second_def)

lemma sint_minDuration: "sint minDuration = - 9223372036854775808"
  by (simp add: minDuration_def)

lemma sint_word_of_int_64:
  "- 9223372036854775808 \<le> k \<Longrightarrow> k < 9223372036854775808 \<Longrightarrow> sint (word_of_int k :: 64 word) = k"
  by (simp add: sint_sbintrunc' signed_take_bit_int_eq_self)

lemma sint_bounds_64:
  "- 9223372036854775808 \<le> sint (x :: 64 word)" "sint (x :: 64 word) < 9223372036854775808"
  using sint_ge [of x] sint_lt [of x] by simp_all

lemma sint_eqI:
  "w = word_of_int k \<Longrightarrow> - 9223372036854775808 \<le> k \<Longrightarrow> k < 9223372036854775808 \<Longrightarrow>
   sint (w :: 64 word) = k"
  by (simp add: sint_word_of_int_64)

lemma uint_eqI:
  "w = word_of_int k \<Longrightarrow> 0 \<le> k \<Longrightarrow> k < 18446744073709551616 \<Longrightarrow> uint (w :: 64 word) = k"
  by (simp add: uint_word_of_int take_bit_int_eq_self)

lemma word_zero_sint: "sint (w :: 64 word) = 0 \<Longrightarrow> w = 0"
proof -
  assume a: "sint w = 0"
  have "word_of_int (sint w) = w" by simp
  then show "w = 0" unfolding a by simp
qed

lemma sint_quo:
  assumes "0 < sint b"
  shows "sint (quo a b) = sint a sdiv sint b"
proof -
  have r: "sint a sdiv sint b \<in> {- \<bar>sint a\<bar> .. \<bar>sint a\<bar>}" by (rule sdiv_int_range)
  have "sint a < 0 \<Longrightarrow> sint a sdiv sint b \<le> 0"
    using assms by (simp add: signed_divide_int_def sgn_if pos_imp_zdiv_nonneg_iff)
  with r have "- 9223372036854775808 \<le> sint a sdiv sint b" "sint a sdiv sint b < 9223372036854775808"
    using sint_bounds_64 [of a] by (auto simp: abs_if split: if_splits)
  then show ?thesis by (simp add: quo_def sint_word_of_int_64)
qed

lemma sint_rem:
  assumes "0 < sint b"
  shows "sint (rem a b) = sint a smod sint b"
proof -
  have "sint a smod sint b \<in> {- \<bar>sint b\<bar> + 1 .. \<bar>sint b\<bar> - 1}"
    using assms by (intro smod_int_range) simp
  then have "- 9223372036854775808 \<le> sint a smod sint b" "sint a smod sint b < 9223372036854775808"
    using sint_bounds_64 [of b] assms by (auto simp: abs_if split: if_splits)
  then show ?thesis by (simp add: rem_def sint_word_of_int_64)
qed

lemma sint_quo_nonneg:
  assumes "0 \<le> sint a" "0 < sint b"
  shows "sint (quo a b) = sint a div sint b"
  using assms by (simp add: sint_quo signed_divide_int_def sgn_if)

lemma sint_rest_nonneg:
  assumes "0 \<le> sint a" "0 < sint b"
  shows "sint (a - quo a b * b) = sint a mod sint b"
proof -
  have q: "sint (quo a b) = sint a div sint b" using assms by (rule sint_quo_nonneg)
  have "a - quo a b * b = word_of_int (sint a - sint (quo a b) * sint b)"
    by simp
  also have "sint a - sint (quo a b) * sint b = sint a mod sint b"
    by (simp add: q minus_div_mult_eq_mod)
  finally have e: "a - quo a b * b = word_of_int (sint a mod sint b)" .
  have "0 \<le> sint a mod sint b" "sint a mod sint b < sint b" using assms by simp_all
  then show ?thesis using sint_bounds_64(2) [of b] by (simp add: e sint_word_of_int_64)
qed

lemma quo_neg_le:
  assumes "sint a \<le> 0" "0 < sint b"
  shows "sint (quo a b) \<le> 0"
  using assms by (simp add: sint_quo signed_divide_int_def sgn_if pos_imp_zdiv_nonneg_iff)

lemma quo_Second_neg:
  assumes "sint a \<le> - 1000000000"
  shows "sint (quo a Second) < 0"
proof -
  have "1000000000 div 1000000000 \<le> (- sint a) div 1000000000"
    using assms by (intro zdiv_mono1) simp_all
  then show ?thesis using assms
    by (simp add: sint_quo sint_Second signed_divide_int_def sgn_if)
qed

section \<open>Rounding to the second\<close>

lemma div_shifted:
  fixes q r :: int
  assumes "0 \<le> r" "r < 1000000000"
  shows "(r + 1000000000 * q) div 1000000000 = q"
proof -
  have "(r + 1000000000 * q) div 1000000000 = q + r div 1000000000"
    by simp
  also have "r div 1000000000 = 0" using assms by (rule div_pos_pos_trivial)
  finally show ?thesis by simp
qed

lemma round_half_down:
  fixes D :: int
  assumes "2 * (D mod 1000000000) < 1000000000"
  shows "D - D mod 1000000000 = (D + 500000000) div 1000000000 * 1000000000"
proof -
  have "D + 500000000 = (D mod 1000000000 + 500000000) + 1000000000 * (D div 1000000000)"
    by (simp add: algebra_simps)
  moreover have "0 \<le> D mod 1000000000 + 500000000" "D mod 1000000000 + 500000000 < 1000000000"
    using assms by simp_all
  ultimately have "(D + 500000000) div 1000000000 = D div 1000000000"
    by (simp only: div_shifted)
  then show ?thesis by (simp add: minus_mod_eq_div_mult)
qed

lemma round_half_up:
  fixes D :: int
  assumes "\<not> 2 * (D mod 1000000000) < 1000000000"
  shows "D + 1000000000 - D mod 1000000000 = (D + 500000000) div 1000000000 * 1000000000"
proof -
  have "D + 500000000 = (D mod 1000000000 - 500000000) + 1000000000 * (D div 1000000000 + 1)"
    by (simp add: algebra_simps)
  moreover have "0 \<le> D mod 1000000000 - 500000000" "D mod 1000000000 - 500000000 < 1000000000"
    using assms by simp_all
  ultimately have "(D + 500000000) div 1000000000 = D div 1000000000 + 1"
    by (simp only: div_shifted)
  then show ?thesis by (simp add: algebra_simps minus_mod_eq_mult_div)
qed

lemma lessThanHalf_small:
  assumes "0 \<le> sint r" "sint r < 1000000000"
  shows "lessThanHalf r Second \<longleftrightarrow> 2 * sint r < 1000000000"
proof -
  have "r + r = word_of_int (sint r + sint r)" by simp
  then have "uint (r + r) = sint r + sint r"
    by (rule uint_eqI) (use assms in simp_all)
  then show ?thesis
    by (simp add: lessThanHalf_def word_less_def Second_def)
qed

lemma Round_nonneg:
  assumes "0 \<le> sint d" "sint d < 9223372036500000000"
  shows "sint (Round d Second) = (sint d + 500000000) div 1000000000 * 1000000000"
proof -
  define D where "D = sint d"
  define R where "R = D mod 1000000000"
  have R: "0 \<le> R" "R < 1000000000" by (simp_all add: R_def)
  have sr: "sint (rem d Second) = R"
    using assms by (simp add: sint_rem sint_Second D_def R_def signed_modulo_int_def sgn_if)
  have lh: "lessThanHalf (rem d Second) Second \<longleftrightarrow> 2 * R < 1000000000"
    using R by (simp add: lessThanHalf_small sr)
  have nz: "\<not> Second \<le>s 0" "\<not> d <s 0"
    using assms by (simp_all add: word_sle_eq word_sless_alt sint_Second)
  show ?thesis
  proof (cases "2 * R < 1000000000")
    case True
    have "sint (d - rem d Second) = D - R"
    proof -
      have "d - rem d Second = word_of_int (sint d - sint (rem d Second))" by simp
      then have "d - rem d Second = word_of_int (D - R)" by (simp only: sr D_def)
      moreover have "R \<le> D" using assms by (simp add: R_def D_def zmod_le_nonneg_dividend)
      then have "0 \<le> D - R" "D - R \<le> D" using R by simp_all
      ultimately show ?thesis using assms by (intro sint_eqI) (simp_all add: D_def)
    qed
    moreover have "D - R = (D + 500000000) div 1000000000 * 1000000000"
      using True unfolding R_def by (rule round_half_down)
    ultimately show ?thesis using True nz lh by (simp add: Round_def D_def Let_def)
  next
    case False
    have e: "D + 1000000000 - R = (D + 500000000) div 1000000000 * 1000000000"
      using False unfolding R_def by (rule round_half_up)
    have "D + 500000000 \<le> 9223372036999999999" using assms by (simp add: D_def)
    then have "(D + 500000000) div 1000000000 \<le> 9223372036999999999 div 1000000000"
      by (intro zdiv_mono1) simp_all
    then have b: "D + 1000000000 - R < 9223372036854775808"
      unfolding e by simp
    have "d + Second - rem d Second = word_of_int (sint d + sint Second - sint (rem d Second))"
      by simp
    then have "d + Second - rem d Second = word_of_int (D + 1000000000 - R)"
      by (simp only: sr D_def sint_Second)
    moreover have "0 \<le> D + 1000000000 - R" using R assms by (simp add: D_def)
    ultimately have s: "sint (d + Second - rem d Second) = D + 1000000000 - R"
      using b by (intro sint_eqI) simp_all
    have "d <s d + Second - rem d Second"
      using R by (simp add: word_sless_alt s) (simp add: D_def)
    then show ?thesis using False nz lh s e by (simp add: Round_def D_def Let_def)
  qed
qed

lemma Round_neg_parts:
  assumes "sint d < 0"
  defines "R \<equiv> (- sint d) mod 1000000000"
  shows "sint (- rem d Second) = R"
    and "lessThanHalf (- rem d Second) Second \<longleftrightarrow> 2 * R < 1000000000"
proof -
  have R: "0 \<le> R" "R < 1000000000" by (simp_all add: R_def)
  have "sint (rem d Second) = - R"
    using assms(1) by (simp add: sint_rem sint_Second R_def signed_modulo_int_def sgn_if)
  moreover have "- rem d Second = word_of_int (- sint (rem d Second))" by simp
  ultimately have "- rem d Second = word_of_int R" by (simp only: minus_minus)
  then show s: "sint (- rem d Second) = R" by (rule sint_eqI) (use R in simp_all)
  show "lessThanHalf (- rem d Second) Second \<longleftrightarrow> 2 * R < 1000000000"
    using R by (simp add: lessThanHalf_small s)
qed

lemma Round_neg:
  assumes "sint d \<le> - 500000000"
  shows "sint (Round d Second) \<le> - 1000000000"
proof -
  define D where "D = sint d"
  define R where "R = (- D) mod 1000000000"
  define q where "q = (- D) div 1000000000"
  have D: "D \<le> - 500000000" using assms by (simp add: D_def)
  have dneg: "sint d < 0" using assms by simp
  have R: "0 \<le> R" "R < 1000000000" by (simp_all add: R_def)
  have q: "0 \<le> q" using D by (simp add: q_def pos_imp_zdiv_nonneg_iff)
  have split: "- D = 1000000000 * q + R" by (simp add: q_def R_def)
  have sr: "sint (- rem d Second) = R"
    and lh: "lessThanHalf (- rem d Second) Second \<longleftrightarrow> 2 * R < 1000000000"
    using Round_neg_parts [OF dneg] by (simp_all add: R_def D_def)
  have nz: "\<not> Second \<le>s 0" "d <s 0"
    using assms by (simp_all add: word_sle_eq word_sless_alt sint_Second)
  show ?thesis
  proof (cases "2 * R < 1000000000")
    case True
    then have "1 \<le> q" using split D q by (cases "q = 0") simp_all
    then have le: "D + R \<le> - 1000000000" using split by simp
    have "d + - rem d Second = word_of_int (sint d + sint (- rem d Second))" by simp
    then have "d + - rem d Second = word_of_int (D + R)" by (simp only: sr D_def)
    then have "sint (d + - rem d Second) = D + R"
      by (rule sint_eqI) (use le R sint_bounds_64(1) [of d] in \<open>simp_all add: D_def\<close>)
    then show ?thesis using True nz lh le by (simp add: Round_def Let_def)
  next
    case False
    have le: "D - 1000000000 + R \<le> - 1000000000" using split q by simp
    have "d - Second + - rem d Second = word_of_int (sint d - sint Second + sint (- rem d Second))"
      by simp
    then have w: "d - Second + - rem d Second = word_of_int (D - 1000000000 + R)"
      by (simp only: sr D_def sint_Second)
    show ?thesis
    proof (cases "- 9223372036854775808 \<le> D - 1000000000 + R")
      case True
      from w have s: "sint (d - Second + - rem d Second) = D - 1000000000 + R"
        by (rule sint_eqI) (use True le in simp_all)
      then have "d - Second + - rem d Second <s d"
        using R by (simp add: word_sless_alt D_def)
      then show ?thesis using False nz lh le s by (simp add: Round_def Let_def)
    next
      case over: False
      have "d - Second + - rem d Second = word_of_int (D - 1000000000 + R + 18446744073709551616)"
        unfolding w by simp
      then have s: "sint (d - Second + - rem d Second) = D - 1000000000 + R + 18446744073709551616"
        by (rule sint_eqI) (use over R sint_bounds_64(1) [of d] in \<open>simp_all add: D_def\<close>)
      have "\<not> d - Second + - rem d Second <s d"
        using R s by (simp add: word_sless_alt D_def)
      then show ?thesis using False nz lh by (simp add: Round_def Let_def sint_minDuration)
    qed
  qed
qed

lemma Round_small_neg:
  assumes "sint d < 0" "- 500000000 < sint d"
  shows "Round d Second = 0"
proof -
  have e: "(- sint d) mod 1000000000 = - sint d"
    using assms by (intro mod_pos_pos_trivial) simp_all
  have sr: "sint (- rem d Second) = - sint d"
    and lh: "lessThanHalf (- rem d Second) Second"
    using Round_neg_parts [OF assms(1)] assms(2) by (simp_all add: e)
  have nz: "\<not> Second \<le>s 0" "d <s 0"
    using assms by (simp_all add: word_sle_eq word_sless_alt sint_Second)
  have "d + - rem d Second = word_of_int (sint d + sint (- rem d Second))" by simp
  then have "d + - rem d Second = 0" by (simp only: sr) simp
  then show ?thesis using nz lh by (simp add: Round_def Let_def)
qed

section \<open>Decimal digits and padding\<close>

lemma digits_nonempty: "digits n \<noteq> []"
  by (subst digits.simps) simp

lemma length_digits_small: "n < 10 \<Longrightarrow> length (digits n) = 1"
  by (subst digits.simps) simp

lemma length_digits_big: "10 \<le> n \<Longrightarrow> 2 \<le> length (digits n)"
proof -
  assume "10 \<le> n"
  then have "digits n = digits (n div 10) @ [''0123456789'' ! (n mod 10)]"
    by (subst digits.simps) simp
  moreover have "1 \<le> length (digits (n div 10))"
    using digits_nonempty [of "n div 10"] by (cases "digits (n div 10)") simp_all
  ultimately show ?thesis by simp
qed

lemma length_digits_two: "10 \<le> n \<Longrightarrow> n < 100 \<Longrightarrow> length (digits n) = 2"
proof -
  assume a: "10 \<le> n" "n < 100"
  then have "digits n = digits (n div 10) @ [''0123456789'' ! (n mod 10)]"
    by (subst digits.simps) simp
  moreover have "n div 10 < 10" using a by simp
  ultimately show ?thesis by (simp add: length_digits_small)
qed

lemma digit_char: "k < 10 \<Longrightarrow> is_digit (''0123456789'' ! k)"
  unfolding is_digit_def by (rule nth_mem) simp

lemma digits_all_digit: "list_all is_digit (digits n)"
proof (induction n rule: digits.induct)
  case (1 n)
  show ?case
  proof (cases "n < 10")
    case True
    then show ?thesis by (subst digits.simps) (simp add: digit_char)
  next
    case False
    then show ?thesis using 1 by (subst digits.simps) (simp add: digit_char)
  qed
qed

lemma zero_pad_two: "zero_pad 2 (digits n) = two_digits n"
proof (cases "n < 10")
  case True
  then show ?thesis by (simp add: zero_pad_def two_digits_def length_digits_small)
next
  case False
  then have "2 \<le> length (digits n)" by (simp add: length_digits_big)
  then show ?thesis using False by (simp add: zero_pad_def two_digits_def)
qed

lemma Sprintf_02d_nonneg: "0 \<le> sint v \<Longrightarrow> Sprintf_02d v = two_digits (nat (sint v))"
  by (simp add: Sprintf_02d_def zero_pad_two)

lemma Sprintf_02d_neg: "sint v < 0 \<Longrightarrow> CHR ''-'' \<in> set (Sprintf_02d v)"
  by (simp add: Sprintf_02d_def)

lemma two_digits_length: "n < 100 \<Longrightarrow> length (two_digits n) = 2"
  by (simp add: two_digits_def length_digits_small length_digits_two)

lemma two_digits_length_ge: "2 \<le> length (two_digits n)"
  by (simp add: two_digits_def length_digits_small length_digits_big)

lemma two_digits_all_digit: "list_all is_digit (two_digits n)"
  by (simp add: two_digits_def digits_all_digit is_digit_def)

section \<open>The three fields of the formatted duration\<close>

lemma ns_div_hour: "(T * 1000000000) div 3600000000000 = T div (3600::int)"
proof -
  have "(T * 1000000000) div (3600 * 1000000000) = T div (3600::int)"
    by (rule div_mult_mult2) simp
  then show ?thesis by simp
qed

lemma ns_mod_hour: "(T * 1000000000) mod 3600000000000 = T mod (3600::int) * 1000000000"
proof -
  have "(T * 1000000000) mod (3600 * 1000000000) = T mod (3600::int) * 1000000000"
    by (rule mod_mult_mult2)
  then show ?thesis by simp
qed

lemma ns_div_minute: "(T * 1000000000) div 60000000000 = T div (60::int)"
proof -
  have "(T * 1000000000) div (60 * 1000000000) = T div (60::int)"
    by (rule div_mult_mult2) simp
  then show ?thesis by simp
qed

lemma ns_mod_minute: "(T * 1000000000) mod 60000000000 = T mod (60::int) * 1000000000"
proof -
  have "(T * 1000000000) mod (60 * 1000000000) = T mod (60::int) * 1000000000"
    by (rule mod_mult_mult2)
  then show ?thesis by simp
qed

lemma mod_hour_div_minute: "(T::int) mod 3600 div 60 = T div 60 mod 60"
proof -
  have "T mod (60 * 60) = 60 * (T div 60 mod 60) + T mod 60"
    by (rule zmod_zmult2_eq) simp
  then have "T mod 3600 div 60 = (T mod 60 + 60 * (T div 60 mod 60)) div 60"
    by (simp add: add.commute)
  also have "\<dots> = T div 60 mod 60 + T mod 60 div 60"
    by simp
  also have "T mod 60 div 60 = 0"
    by (rule div_pos_pos_trivial) simp_all
  finally show ?thesis by simp
qed

lemma mod_hour_mod_minute: "(T::int) mod 3600 mod 60 = T mod 60"
  by (rule mod_mod_cancel) simp

lemma hms_of_seconds:
  assumes "sint x = T * 1000000000" "0 \<le> T"
  shows "Sprintf_02d (quo x Hour) = two_digits (nat T div 3600)"
    and "Sprintf_02d (quo (x - quo x Hour * Hour) Minute) = two_digits (nat T div 60 mod 60)"
    and "Sprintf_02d (quo (x - quo x Hour * Hour - quo (x - quo x Hour * Hour) Minute * Minute) Second)
          = two_digits (nat T mod 60)"
proof -
  have x0: "0 \<le> sint x" using assms by simp
  have h: "sint (quo x Hour) = T div 3600"
    using x0 by (simp add: sint_quo_nonneg sint_Hour assms(1) ns_div_hour)
  define y where "y = x - quo x Hour * Hour"
  have y: "sint y = (T mod 3600) * 1000000000"
    unfolding y_def using x0 by (simp add: sint_rest_nonneg sint_Hour assms(1) ns_mod_hour)
  have y0: "0 \<le> sint y" using y by simp
  have m: "sint (quo y Minute) = T mod 3600 div 60"
    using y0 by (simp add: sint_quo_nonneg sint_Minute y ns_div_minute)
  define z where "z = y - quo y Minute * Minute"
  have z: "sint z = (T mod 3600 mod 60) * 1000000000"
    unfolding z_def using y0 by (simp add: sint_rest_nonneg sint_Minute y ns_mod_minute)
  have z0: "0 \<le> sint z" using z by simp
  have s: "sint (quo z Second) = T mod 3600 mod 60"
    using z0 by (simp add: sint_quo_nonneg sint_Second z)
  have n1: "nat (T div 3600) = nat T div 3600" using assms(2) by (simp add: nat_div_distrib)
  have n2: "nat (T mod 3600 div 60) = nat T div 60 mod 60"
    using assms(2) by (simp add: mod_hour_div_minute nat_div_distrib nat_mod_distrib pos_imp_zdiv_nonneg_iff)
  have n3: "nat (T mod 3600 mod 60) = nat T mod 60"
    using assms(2) by (simp add: mod_hour_mod_minute nat_mod_distrib)
  show "Sprintf_02d (quo x Hour) = two_digits (nat T div 3600)"
    using assms(2) by (simp add: Sprintf_02d_nonneg h n1 pos_imp_zdiv_nonneg_iff)
  show "Sprintf_02d (quo (x - quo x Hour * Hour) Minute) = two_digits (nat T div 60 mod 60)"
    unfolding y_def [symmetric] by (simp add: Sprintf_02d_nonneg m n2 pos_imp_zdiv_nonneg_iff)
  show "Sprintf_02d (quo (x - quo x Hour * Hour - quo (x - quo x Hour * Hour) Minute * Minute) Second)
          = two_digits (nat T mod 60)"
    unfolding y_def [symmetric] z_def [symmetric] by (simp add: Sprintf_02d_nonneg s n3)
qed

lemma minus_component:
  assumes "sint x \<le> - 1000000000"
  shows "sint (quo x Hour) < 0
    \<or> sint (quo (x - quo x Hour * Hour) Minute) < 0
    \<or> sint (quo (x - quo x Hour * Hour - quo (x - quo x Hour * Hour) Minute * Minute) Second) < 0"
proof (cases "sint (quo x Hour) < 0")
  case True
  then show ?thesis by simp
next
  case False
  moreover have "sint (quo x Hour) \<le> 0" using assms by (intro quo_neg_le) (simp_all add: sint_Hour)
  ultimately have h: "quo x Hour = 0" by (intro word_zero_sint) simp
  show ?thesis
  proof (cases "sint (quo x Minute) < 0")
    case True
    then show ?thesis by (simp add: h)
  next
    case False
    moreover have "sint (quo x Minute) \<le> 0" using assms by (intro quo_neg_le) (simp_all add: sint_Minute)
    ultimately have m: "quo x Minute = 0" by (intro word_zero_sint) simp
    show ?thesis using assms by (simp add: h m quo_Second_neg)
  qed
qed

section \<open>The shape \<open>HH:MM:SS\<close>\<close>

lemma split_on_nonempty: "split_on sep a \<noteq> []"
  by (induction a) (auto split: list.splits)

lemma split_on_sep: "split_on sep (a @ sep # b) = split_on sep a @ split_on sep b"
proof (induction a)
  case Nil
  show ?case by simp
next
  case (Cons x xs)
  show ?case
  proof (cases "x = sep")
    case True
    with Cons show ?thesis by simp
  next
    case False
    obtain f fs where "split_on sep xs = f # fs"
      using split_on_nonempty [of sep xs] by (cases "split_on sep xs") auto
    with False Cons show ?thesis by simp
  qed
qed

lemma split_on_free: "sep \<notin> set a \<Longrightarrow> split_on sep a = [a]"
  by (induction a) auto

lemma split_on_digits: "list_all is_digit xs \<Longrightarrow> split_on (CHR '':'') xs = [xs]"
  by (induction xs) (auto simp: is_digit_def)

lemma split_on_field:
  "list_all is_digit xs \<Longrightarrow> split_on (CHR '':'') (xs @ CHR '':'' # ys) = xs # split_on (CHR '':'') ys"
  by (induction xs) (auto simp: is_digit_def)

lemma is_HHMMSS_hhmmss: "is_HHMMSS (hhmmss t)"
proof -
  have "split_on (CHR '':'') (hhmmss t) =
      [two_digits (t div 3600), two_digits (t div 60 mod 60), two_digits (t mod 60)]"
    by (simp add: hhmmss_def split_on_field split_on_digits two_digits_all_digit)
  then show ?thesis
    by (simp add: is_HHMMSS_def two_digits_length two_digits_length_ge two_digits_all_digit)
qed

lemma split_on_chars: "set t \<subseteq> \<Union> (set ` set (split_on sep t)) \<union> {sep}"
proof (induction t)
  case Nil
  show ?case by simp
next
  case (Cons c cs)
  show ?case
  proof (cases "c = sep")
    case True
    with Cons show ?thesis by auto
  next
    case False
    with Cons show ?thesis by (cases "split_on sep cs") auto
  qed
qed

lemma is_HHMMSS_no_minus: "is_HHMMSS t \<Longrightarrow> CHR ''-'' \<notin> set t"
proof
  assume a: "is_HHMMSS t" and m: "CHR ''-'' \<in> set t"
  from a obtain h m s where p: "split_on (CHR '':'') t = [h, m, s]" and d: "list_all is_digit (h @ m @ s)"
    by (auto simp: is_HHMMSS_def split: list.splits)
  from m split_on_chars [of t "CHR '':''"] have "CHR ''-'' \<in> set h \<union> set m \<union> set s"
    by (auto simp: p)
  with d have "is_digit (CHR ''-'')" unfolding list_all_iff by auto
  then show False by (simp add: is_digit_def)
qed

section \<open>The Duration Formatter on the three ranges of its input\<close>

lemma formatDuration_nonneg:
  assumes "0 \<le> sint d" "sint d < 9223372036500000000"
  shows "formatDuration d = hhmmss (nearest_second (sint d))"
proof -
  define T where "T = (sint d + 500000000) div 1000000000"
  have T0: "0 \<le> T" using assms by (simp add: T_def pos_imp_zdiv_nonneg_iff)
  have r: "sint (Round d Second) = T * 1000000000"
    using assms by (simp add: Round_nonneg T_def)
  show ?thesis
    unfolding formatDuration_def Let_def hhmmss_def nearest_second_def T_def [symmetric]
    by (simp only: hms_of_seconds [OF r T0])
qed

lemma formatDuration_small_neg:
  assumes "sint d < 0" "- 500000000 < sint d"
  shows "formatDuration d = ''00:00:00''"
  unfolding formatDuration_def Round_small_neg [OF assms]
  by (simp add: quo_def Hour_def Minute_def Second_def Sprintf_02d_def zero_pad_def digits.simps)

lemma formatDuration_neg:
  assumes "sint d \<le> - 500000000"
  shows "CHR ''-'' \<in> set (formatDuration d)"
  using minus_component [OF Round_neg [OF assms]]
  by (auto simp: formatDuration_def Let_def Sprintf_02d_neg)

lemma Round_saturates:
  assumes "9223372036500000000 \<le> sint d"
  shows "Round d Second = maxDuration"
proof -
  define D where "D = sint d"
  define R where "R = D - 9223372036000000000"
  have D: "9223372036500000000 \<le> D" "D < 9223372036854775808"
    using assms sint_bounds_64(2) [of d] by (simp_all add: D_def)
  have R: "500000000 \<le> R" "R < 1000000000" using D by (simp_all add: R_def)
  have "D = R + 1000000000 * 9223372036" by (simp add: R_def)
  then have "D mod 1000000000 = R mod 1000000000" by (simp only: mod_mult_self2)
  also have "\<dots> = R" using R by (intro mod_pos_pos_trivial) simp_all
  finally have m: "D mod 1000000000 = R" .
  have sr: "sint (rem d Second) = R"
    using D by (simp add: sint_rem sint_Second D_def [symmetric] m signed_modulo_int_def sgn_if)
  have lh: "\<not> lessThanHalf (rem d Second) Second"
    using R by (simp add: lessThanHalf_small sr)
  have nz: "\<not> Second \<le>s 0" "\<not> d <s 0"
    using assms by (simp_all add: word_sle_eq word_sless_alt sint_Second)
  have "d + Second - rem d Second = word_of_int (sint d + sint Second - sint (rem d Second))"
    by simp
  then have "d + Second - rem d Second = word_of_int (D + 1000000000 - R)"
    by (simp only: sr D_def sint_Second)
  then have "d + Second - rem d Second = word_of_int (- 9223372036709551616)"
    by (simp add: R_def)
  then have "sint (d + Second - rem d Second) = - 9223372036709551616"
    by (rule sint_eqI) simp_all
  then have "\<not> d <s d + Second - rem d Second"
    using D by (simp add: word_sless_alt D_def)
  then show ?thesis using nz lh by (simp add: Round_def Let_def)
qed

lemma formatDuration_saturated:
  assumes "9223372036500000000 \<le> sint d"
  shows "formatDuration d = ''2562047:47:16''"
  unfolding formatDuration_def Round_saturates [OF assms]
  by (simp add: maxDuration_def quo_def Hour_def Minute_def Second_def Sprintf_02d_def
      zero_pad_def digits.simps)

lemma Sprintf_02d_no_colon: "CHR '':'' \<notin> set (Sprintf_02d v)"
proof
  assume a: "CHR '':'' \<in> set (Sprintf_02d v)"
  have "CHR '':'' \<in> set (digits n) \<Longrightarrow> False" for n
  proof -
    assume "CHR '':'' \<in> set (digits n)"
    with digits_all_digit [of n] have "is_digit (CHR '':'')" unfolding list_all_iff by blast
    then show False by (simp add: is_digit_def)
  qed
  with a show False
    by (auto simp: Sprintf_02d_def zero_pad_def split: if_splits)
qed

lemma formatDuration_three_fields: "length (split_on (CHR '':'') (formatDuration d)) = 3"
proof -
  have "split_on (CHR '':'') (a @ CHR '':'' # b @ CHR '':'' # c) = [a, b, c]"
    if "CHR '':'' \<notin> set a" "CHR '':'' \<notin> set b" "CHR '':'' \<notin> set c" for a b c
    using that by (simp add: split_on_sep split_on_free)
  then show ?thesis
    by (simp add: formatDuration_def Let_def Sprintf_02d_no_colon)
qed

section \<open>Claims about the Duration Formatter\<close>

text \<open>
  C2. For every non-negative duration the Duration Formatter rounds to the nearest whole
  second, splits the seconds into hours (not wrapped), minutes and seconds, and returns
  the zero-padded \<open>HH:MM:SS\<close> with exactly two digits for minutes and for seconds; 3661
  seconds give \<open>01:01:01\<close> and 90000 seconds give \<open>25:00:00\<close>. This holds for the
  durations below 9223372036.5 seconds. From there to the largest \<open>int64\<close> the nearest
  second is not a \<open>Duration\<close>: \<open>Round\<close> returns the largest one and the text is that
  of the second below.
\<close>

theorem formatDuration_contract:
  "(0 \<le> sint d \<and> sint d < 9223372036500000000 \<longrightarrow>
      formatDuration d = hhmmss (nearest_second (sint d)) \<and> is_HHMMSS (formatDuration d))
   \<and> (9223372036500000000 \<le> sint d \<longrightarrow> formatDuration d = ''2562047:47:16'')
   \<and> formatDuration (3661 * Second) = ''01:01:01''
   \<and> formatDuration (90000 * Second) = ''25:00:00''"
proof -
  have a: "formatDuration (3661 * Second) = hhmmss (nearest_second (sint (3661 * Second)))"
    by (rule formatDuration_nonneg) (simp_all add: Second_def)
  have b: "formatDuration (90000 * Second) = hhmmss (nearest_second (sint (90000 * Second)))"
    by (rule formatDuration_nonneg) (simp_all add: Second_def)
  have "formatDuration (3661 * Second) = ''01:01:01''"
    unfolding a by (simp add: Second_def nearest_second_def hhmmss_def two_digits_def digits.simps)
  moreover have "formatDuration (90000 * Second) = ''25:00:00''"
    unfolding b by (simp add: Second_def nearest_second_def hhmmss_def two_digits_def digits.simps)
  ultimately show ?thesis
    by (simp add: formatDuration_nonneg formatDuration_saturated is_HHMMSS_hhmmss)
qed

theorem formatDuration_contract_witness:
  "0 \<le> sint (59999 * Second + 500000000) \<and> sint (59999 * Second + 500000000) < 9223372036500000000
   \<and> formatDuration (59999 * Second + 500000000) = ''16:40:00''
   \<and> is_HHMMSS (formatDuration (59999 * Second + 500000000))
   \<and> 9223372036500000000 \<le> sint maxDuration
   \<and> formatDuration maxDuration = ''2562047:47:16''"
  using formatDuration_contract [of "59999 * Second + 500000000"]
    formatDuration_contract [of maxDuration]
  by (simp add: Second_def maxDuration_def nearest_second_def hhmmss_def two_digits_def digits.simps
      is_HHMMSS_def is_digit_def)

theorem formatDuration_contract_counterexample:
  "0 \<le> sint (9223372036500000000 :: Duration)
   \<and> hhmmss (nearest_second (sint (9223372036500000000 :: Duration))) = ''2562047:47:17''
   \<and> formatDuration 9223372036500000000 = ''2562047:47:16''"
  by (simp add: formatDuration_saturated nearest_second_def hhmmss_def two_digits_def digits.simps)

text \<open>
  C10. The Duration Formatter returns a string for every duration, negative ones too: no
  operation of it can fail (the divisors are non-zero constants), and the result always
  has three fields between colons. From half a second below zero downwards at least one
  of the fields carries a minus sign and the string is not of the shape \<open>HH:MM:SS\<close>.
  The negative durations above minus half a second round to zero and give \<open>00:00:00\<close>.
\<close>

theorem formatDuration_negative:
  "length (split_on (CHR '':'') (formatDuration d)) = 3
   \<and> (sint d \<le> - 500000000 \<longrightarrow>
      CHR ''-'' \<in> set (formatDuration d) \<and> \<not> is_HHMMSS (formatDuration d))
   \<and> (- 500000000 < sint d \<and> sint d < 0 \<longrightarrow> formatDuration d = ''00:00:00'')"
  using is_HHMMSS_no_minus [of "formatDuration d"]
  by (auto simp: formatDuration_neg formatDuration_small_neg formatDuration_three_fields)

theorem formatDuration_negative_witness:
  "sint (- 65 * Second) \<le> - 500000000
   \<and> formatDuration (- 65 * Second) = ''00:-1:-5''
   \<and> CHR ''-'' \<in> set (formatDuration (- 65 * Second))
   \<and> \<not> is_HHMMSS (formatDuration (- 65 * Second))
   \<and> - 500000000 < sint (- 499999999 :: Duration) \<and> sint (- 499999999 :: Duration) < 0
   \<and> formatDuration (- 499999999) = ''00:00:00''"
proof -
  have "formatDuration (- 65 * Second) = ''00:-1:-5''"
    by (simp add: formatDuration_def Round_def rem_def quo_def lessThanHalf_def Second_def
        Minute_def Hour_def Sprintf_02d_def zero_pad_def digits.simps word_sless_alt word_sle_eq)
  then show ?thesis
    using formatDuration_negative [of "- 65 * Second"] formatDuration_negative [of "- 499999999"]
    by (simp add: Second_def)
qed

theorem formatDuration_negative_counterexample:
  "sint (- 1 :: Duration) < 0
   \<and> formatDuration (- 1) = ''00:00:00''
   \<and> is_HHMMSS (formatDuration (- 1))
   \<and> CHR ''-'' \<notin> set (formatDuration (- 1))"
proof -
  have "formatDuration (- 1) = ''00:00:00''"
    by (rule formatDuration_small_neg) simp_all
  then show ?thesis by (simp add: is_HHMMSS_def is_digit_def)
qed

section \<open>Templates without actions\<close>

lemma lexText_plain: "\<not> has_action ts \<Longrightarrow> lexText acc ts = Some [TextNode (acc @ ts)]"
  by (induction ts arbitrary: acc rule: has_action.induct) auto

lemma Parse_plain: "\<not> has_action ts \<Longrightarrow> Parse ts = Some [TextNode ts]"
  by (simp add: Parse_def lexText_plain)

lemma ExecTemplate_plain: "\<not> has_action ts \<Longrightarrow> ExecTemplate engine ts s = Inr ts"
  by (simp add: ExecTemplate_def Parse_plain)

section \<open>What \<open>JobData\<close> writes\<close>

lemma foldl_append: "foldl (\<lambda>b x. b @ f x) b xs = b @ concat (map f xs)"
  by (induction xs arbitrary: b) simp_all

lemma Join_Cons: "ys \<noteq> [] \<Longrightarrow> Join (x # ys) sep = x @ sep @ Join ys sep"
  by (cases ys) simp_all

lemma fields_NewExtendedConfig:
  "fields (NewExtendedConfig c) ''Name'' = Some (Name c)"
  "fields (NewExtendedConfig c) ''ErrorFile'' = Some (path_Join (LogDirectory c) (Name c @ ''.err''))"
  "fields (NewExtendedConfig c) ''OutputFile'' = Some (path_Join (LogDirectory c) (Name c @ ''.out''))"
  "fields (NewExtendedConfig c) ''Email'' = Some (Email c)"
  "fields (NewExtendedConfig c) ''NumberOfNodes'' = Some (Itoa (NumberOfNodes c))"
  "fields (NewExtendedConfig c) ''NodeType'' = Some (NodeType c)"
  "fields (NewExtendedConfig c) ''NumberOfMPIRanksPerNode'' = Some (Itoa (NumberOfMPIRanksPerNode c))"
  "fields (NewExtendedConfig c) ''NumberOfOMPThreadsPerProcess'' = Some (Itoa (NumberOfOMPThreadsPerProcess c))"
  "fields (NewExtendedConfig c) ''WalltimeString'' = Some (formatDuration (Walltime c))"
  "fields (NewExtendedConfig c) ''NumberOfTasksPerNode'' = Some (Itoa 1)"
  "fields (NewExtendedConfig c) ''NumberOfMPIRanks'' = Some (Itoa (NumberOfNodes c * NumberOfMPIRanksPerNode c))"
  by (simp_all add: fields_def NewExtendedConfig_def Let_def)

lemma Itoa_one: "Itoa 1 = ''1''"
  by (simp add: Itoa_def digits.simps)

lemma writePBSHeader_text: "writePBSHeader engine c b = Inr (b @ header_text c ''pbs'')"
  by (simp add: writePBSHeader_def ExecTemplate_def Parse_def is_alnum_def
      fields_NewExtendedConfig header_text_def)

lemma writeSlurmHeader_text: "writeSlurmHeader engine c b = Inr (b @ header_text c ''slurm'')"
  by (simp add: writeSlurmHeader_def ExecTemplate_def Parse_def is_alnum_def
      fields_NewExtendedConfig header_text_def Itoa_one)

lemma writeBareHeader_text: "writeBareHeader engine c b = Inr (b @ header_text c ''bare'')"
  by (simp add: writeBareHeader_def ExecTemplate_def Parse_def header_text_def)

lemma mpirunString_text:
  "ExecTemplate engine ''time mpirun -n {{.NumberOfMPIRanks}}'' (NewExtendedConfig c) =
   Inr (''time mpirun -n '' @ Itoa (NumberOfNodes c * NumberOfMPIRanksPerNode c))"
  by (simp add: ExecTemplate_def Parse_def is_alnum_def fields_NewExtendedConfig)

lemma Itoa_nonempty: "Itoa i \<noteq> []"
  by (simp add: Itoa_def digits_nonempty)

lemma rawTaskString_text:
  "Join ((if 0 <s NumberOfMPIRanksPerNode c
          then [''time mpirun -n '' @ Itoa (NumberOfNodes c * NumberOfMPIRanksPerNode c)] else []) @
         (if RunTime c = [] then [] else [Join (RunTime c) '' '']) @
         [Executable c] @
         (if Arguments c = [] then [] else [Join (Arguments c) '' ''])) '' '' =
   launcher c @ command c"
  by (simp add: launcher_def command_def Join_Cons)

lemma JobData_script:
  "JobData engine c k =
    (case ExecTemplate engine (launcher c @ command c) (NewExtendedConfig c) of
       Inl err \<Rightarrow> Inl (Errorf ''exec task string template: '' err)
     | Inr line \<Rightarrow>
        Inr (header_text c k @ setup_text c @ cd_text c @ ''\<newline>'' @ line @ ''\<newline>'' @
             lines_text (PostScript c)))"
proof -
  have h: "(if k = BatchPBS then
          (case writePBSHeader engine c [] of
             Inl err \<Rightarrow> Inl (Errorf ''write PBS header: '' err)
           | Inr builder \<Rightarrow> Inr builder)
        else if k = BatchSlurm then
          (case writeSlurmHeader engine c [] of
             Inl err \<Rightarrow> Inl (Errorf ''write Slurm header: '' err)
           | Inr builder \<Rightarrow> Inr builder)
        else if k = BatchBare then
          (case writeBareHeader engine c [] of
             Inl err \<Rightarrow> Inl (Errorf ''write bare header: '' err)
           | Inr builder \<Rightarrow> Inr builder)
        else Inr []) = (Inr (header_text c k) :: error + string)"
    by (simp add: writePBSHeader_text writeSlurmHeader_text writeBareHeader_text
        BatchPBS_def BatchSlurm_def BatchBare_def) (simp add: header_text_def)
  have t: "(if 0 <s NumberOfMPIRanksPerNode c then
                 (case ExecTemplate engine ''time mpirun -n {{.NumberOfMPIRanks}}''
                         (NewExtendedConfig c) of
                    Inl err \<Rightarrow> Inl (Errorf ''create mpirun string: '' err)
                  | Inr mpirunString \<Rightarrow>
                     Inr (if mpirunString \<noteq> [] then [] @ [mpirunString] else []))
               else Inr []) =
     (Inr (if 0 <s NumberOfMPIRanksPerNode c
          then [''time mpirun -n '' @ Itoa (NumberOfNodes c * NumberOfMPIRanksPerNode c)] else [])
       :: error + string list)"
    by (simp add: mpirunString_text)
  have j: "Join
          (if 0 < length (Arguments c)
           then ((if 0 < length (RunTime c)
                  then (if 0 <s NumberOfMPIRanksPerNode c
                        then [''time mpirun -n '' @ Itoa (NumberOfNodes c * NumberOfMPIRanksPerNode c)]
                        else []) @ [Join (RunTime c) '' '']
                  else (if 0 <s NumberOfMPIRanksPerNode c
                        then [''time mpirun -n '' @ Itoa (NumberOfNodes c * NumberOfMPIRanksPerNode c)]
                        else [])) @ [Executable c]) @ [Join (Arguments c) '' '']
           else (if 0 < length (RunTime c)
                  then (if 0 <s NumberOfMPIRanksPerNode c
                        then [''time mpirun -n '' @ Itoa (NumberOfNodes c * NumberOfMPIRanksPerNode c)]
                        else []) @ [Join (RunTime c) '' '']
                  else (if 0 <s NumberOfMPIRanksPerNode c
                        then [''time mpirun -n '' @ Itoa (NumberOfNodes c * NumberOfMPIRanksPerNode c)]
                        else [])) @ [Executable c]) '' '' = launcher c @ command c"
    by (cases "RunTime c = []"; cases "Arguments c = []"; cases "0 <s NumberOfMPIRanksPerNode c")
      (simp_all add: launcher_def command_def)
  show ?thesis
    unfolding JobData_def h Let_def t sum.case j
    apply (cases "ExecTemplate engine (launcher c @ command c) (NewExtendedConfig c)")
     apply (simp_all add: foldl_append lines_text_def setup_text_def cd_text_def o_def)
    done
qed

section \<open>Jobs without template actions, and the lines of a script\<close>

lemma has_action_Cons: "c \<noteq> CHR ''{'' \<Longrightarrow> has_action (c # cs) = has_action cs"
  by (cases cs) simp_all

lemma has_action_append: "CHR ''{'' \<notin> set a \<Longrightarrow> has_action (a @ b) = has_action b"
  by (induction a) (auto simp: has_action_Cons)

lemma digits_no_brace: "CHR ''{'' \<notin> set (digits n)"
proof
  assume "CHR ''{'' \<in> set (digits n)"
  with digits_all_digit [of n] have "is_digit (CHR ''{'')" unfolding list_all_iff by blast
  then show False by (simp add: is_digit_def)
qed

lemma Itoa_no_brace: "CHR ''{'' \<notin> set (Itoa i)"
  by (simp add: Itoa_def digits_no_brace)

lemma launcher_no_brace: "CHR ''{'' \<notin> set (launcher c)"
  by (simp add: launcher_def Itoa_no_brace)

lemma JobData_plain:
  assumes "\<not> has_action (command c)"
  shows "JobData engine c k =
     Inr (header_text c k @ setup_text c @ cd_text c @ ''\<newline>'' @ launcher c @ command c @
          ''\<newline>'' @ lines_text (PostScript c))"
proof -
  have "\<not> has_action (launcher c @ command c)"
    using assms by (simp add: has_action_append launcher_no_brace)
  then have "ExecTemplate engine (launcher c @ command c) (NewExtendedConfig c) =
      Inr (launcher c @ command c)"
    by (rule ExecTemplate_plain)
  then show ?thesis by (simp add: JobData_script)
qed

lemma run_plain:
  assumes "\<not> has_action (command c)" "k \<noteq> ''autodetect''" "k \<noteq> ''unsupported''"
  shows "run onPath engine k c =
     Inr (header_text c k @ setup_text c @ cd_text c @ ''\<newline>'' @ launcher c @ command c @
          ''\<newline>'' @ lines_text (PostScript c) @ ''\<newline>'')"
  using assms by (simp add: run_def BatchAutodetect_def BatchUnsupported_def JobData_plain)

lemma cd_lines_newline: "cd_lines (a @ CHR ''\<newline>'' # b) = cd_lines a @ cd_lines b"
  by (simp add: cd_lines_def script_lines_def split_on_sep)

lemma cd_lines_empty: "cd_lines [] = []"
  by (simp add: cd_lines_def script_lines_def starts_with_def)

lemma cd_lines_end: "cd_lines (a @ ''\<newline>'') = cd_lines a"
  using cd_lines_newline [of a "[]"] by (simp add: cd_lines_empty)

lemma cd_lines_cd: "CHR ''\<newline>'' \<notin> set w \<Longrightarrow> cd_lines (''cd '' @ w) = [''cd '' @ w]"
  by (simp add: cd_lines_def script_lines_def split_on_free starts_with_def)

lemma setup_text_end: "\<exists>x. setup_text c = x @ ''\<newline>''"
  by (simp add: setup_text_def)

lemma cd_lines_of_script:
  assumes "CHR ''\<newline>'' \<notin> set (WorkingDirectory c)"
  shows "cd_lines (header_text c k @ setup_text c @ cd_text c @ ''\<newline>'' @ rest) =
     cd_lines (header_text c k @ setup_text c) @
     (if WorkingDirectory c = [] then [] else [''cd '' @ WorkingDirectory c]) @
     cd_lines (''\<newline>'' @ rest)"
proof -
  obtain x where x: "setup_text c = x @ ''\<newline>''" using setup_text_end by blast
  have a: "cd_lines (header_text c k @ x @ ''\<newline>'') = cd_lines (header_text c k @ x)"
    using cd_lines_end [of "header_text c k @ x"] by simp
  show ?thesis
  proof (cases "WorkingDirectory c = []")
    case True
    then show ?thesis
      using cd_lines_newline [of "header_text c k @ x" "''\<newline>'' @ rest"]
      by (simp add: a cd_text_def x)
  next
    case False
    have "cd_lines (header_text c k @ setup_text c @ cd_text c @ ''\<newline>'' @ rest) =
        cd_lines ((header_text c k @ x) @ CHR ''\<newline>'' # ((''cd '' @ WorkingDirectory c) @ CHR ''\<newline>'' # (''\<newline>'' @ rest)))"
      using False by (simp add: cd_text_def x)
    also have "\<dots> = cd_lines (header_text c k @ x) @ cd_lines (''cd '' @ WorkingDirectory c) @
        cd_lines (''\<newline>'' @ rest)"
      by (simp only: cd_lines_newline)
    finally show ?thesis using False assms by (simp add: x a cd_lines_cd [simplified])
  qed
qed

section \<open>The example jobs\<close>

lemma formatDuration_3661: "formatDuration (3661 * Second) = ''01:01:01''"
proof -
  have "formatDuration (3661 * Second) = hhmmss (nearest_second (sint (3661 * Second)))"
    by (rule formatDuration_nonneg) (simp_all add: Second_def)
  then show ?thesis
    by (simp add: Second_def nearest_second_def hhmmss_def two_digits_def digits.simps)
qed

lemma path_Join_logs:
  "path_Join ''logs'' ''run1.out'' = ''logs/run1.out''"
  "path_Join ''logs'' ''run1.err'' = ''logs/run1.err''"
  by (simp_all add: path_Join_def Clean_def)

lemmas job_text =
  header_text_def setup_text_def cd_text_def launcher_def command_def lines_text_def
  Itoa_def digits.simps formatDuration_3661 path_Join_logs word_sless_alt


section \<open>Claims about the derived fields\<close>

text \<open>
  C1. The derived total rank count is the product of nodeCount and ranksPerNode whenever
  that product fits in Go's 64-bit \<open>int\<close>, and it is zero when either factor is zero. In
  general it is the product wrapped to 64 bits, as Go's \<open>*\<close> computes it.
\<close>

theorem total_ranks_product:
  "sint (ExtendedConfig.NumberOfMPIRanks (NewExtendedConfig c)) =
     signed_take_bit 63 (sint (NumberOfNodes c) * sint (NumberOfMPIRanksPerNode c))
   \<and> (- 9223372036854775808 \<le> sint (NumberOfNodes c) * sint (NumberOfMPIRanksPerNode c)
        \<and> sint (NumberOfNodes c) * sint (NumberOfMPIRanksPerNode c) < 9223372036854775808 \<longrightarrow>
      sint (ExtendedConfig.NumberOfMPIRanks (NewExtendedConfig c)) =
        sint (NumberOfNodes c) * sint (NumberOfMPIRanksPerNode c))
   \<and> (NumberOfNodes c = 0 \<or> NumberOfMPIRanksPerNode c = 0 \<longrightarrow>
      ExtendedConfig.NumberOfMPIRanks (NewExtendedConfig c) = 0)"
proof -
  have "ExtendedConfig.NumberOfMPIRanks (NewExtendedConfig c) =
      NumberOfNodes c * NumberOfMPIRanksPerNode c"
    by (simp add: NewExtendedConfig_def Let_def)
  moreover have "sint (NumberOfNodes c * NumberOfMPIRanksPerNode c) =
      signed_take_bit 63 (sint (NumberOfNodes c) * sint (NumberOfMPIRanksPerNode c))"
    by (simp add: sint_word_ariths)
  ultimately show ?thesis
    by (auto simp: signed_take_bit_int_eq_self)
qed

theorem total_ranks_product_witness:
  "- 9223372036854775808 \<le> sint (NumberOfNodes job) * sint (NumberOfMPIRanksPerNode job)
   \<and> sint (NumberOfNodes job) * sint (NumberOfMPIRanksPerNode job) < 9223372036854775808
   \<and> sint (ExtendedConfig.NumberOfMPIRanks (NewExtendedConfig job)) = 8
   \<and> NumberOfMPIRanksPerNode (job\<lparr>NumberOfMPIRanksPerNode := 0\<rparr>) = 0
   \<and> ExtendedConfig.NumberOfMPIRanks (NewExtendedConfig (job\<lparr>NumberOfMPIRanksPerNode := 0\<rparr>)) = 0"
  using total_ranks_product [of job] total_ranks_product [of "job\<lparr>NumberOfMPIRanksPerNode := 0\<rparr>"]
  by (simp add: job_def)

theorem total_ranks_product_counterexample:
  "0 \<le> sint (NumberOfNodes (job\<lparr>NumberOfNodes := 4294967296, NumberOfMPIRanksPerNode := 4294967296\<rparr>))
   \<and> 0 \<le> sint (NumberOfMPIRanksPerNode (job\<lparr>NumberOfNodes := 4294967296, NumberOfMPIRanksPerNode := 4294967296\<rparr>))
   \<and> sint (NumberOfNodes (job\<lparr>NumberOfNodes := 4294967296, NumberOfMPIRanksPerNode := 4294967296\<rparr>)) *
       sint (NumberOfMPIRanksPerNode (job\<lparr>NumberOfNodes := 4294967296, NumberOfMPIRanksPerNode := 4294967296\<rparr>))
       = 18446744073709551616
   \<and> sint (ExtendedConfig.NumberOfMPIRanks
        (NewExtendedConfig (job\<lparr>NumberOfNodes := 4294967296, NumberOfMPIRanksPerNode := 4294967296\<rparr>))) = 0"
  by (simp add: NewExtendedConfig_def Let_def job_def)

text \<open>
  C8. The derived tasks-per-node value is 1 for every job, whatever ranksPerNode is, and
  the Slurm header's \<open>--ntasks-per-node\<close> directive carries 1.
\<close>

theorem tasks_per_node_is_one:
  "NumberOfTasksPerNode (NewExtendedConfig c) = 1
   \<and> writeSlurmHeader engine c builder =
       Inr (builder @
            ''#!/bin/bash -l\<newline>#SBATCH -J '' @ Name c @
            ''\<newline>#SBATCH -o '' @ OutputFile (NewExtendedConfig c) @
            ''\<newline>#SBATCH -e '' @ ErrorFile (NewExtendedConfig c) @
            ''\<newline>#SBATCH --mail-type=ALL\<newline>#SBATCH --mail-user='' @ Email c @
            ''\<newline>#SBATCH --nodes '' @ Itoa (NumberOfNodes c) @
            ''\<newline>#SBATCH --ntasks-per-node 1'' @
            ''\<newline>#SBATCH --time='' @ WalltimeString (NewExtendedConfig c) @
            ''\<newline>\<newline>'')"
  by (simp add: writeSlurmHeader_text header_text_def) (simp add: NewExtendedConfig_def Let_def)

section \<open>Claims about the PBS header\<close>

lemma writePBSHeader_select:
  "writePBSHeader engine c builder =
     Inr (builder @
          ''#!/bin/bash -l\<newline>#PBS -N '' @ Name c @
          ''\<newline>#PBS -e '' @ ErrorFile (NewExtendedConfig c) @
          ''\<newline>#PBS -o '' @ OutputFile (NewExtendedConfig c) @
          ''\<newline>#PBS -m abe\<newline>#PBS -M '' @ Email c @
          ''\<newline>#PBS -l select='' @ Itoa (NumberOfNodes c) @
          '':node_type='' @ NodeType c @
          '':mpiprocs='' @ Itoa (NumberOfMPIRanksPerNode c) @
          '':ompthreads='' @ Itoa (NumberOfOMPThreadsPerProcess c) @
          ''\<newline>#PBS -l walltime='' @ WalltimeString (NewExtendedConfig c) @
          ''\<newline>\<newline>'')"
  by (simp add: writePBSHeader_text header_text_def) (simp add: NewExtendedConfig_def Let_def)

text \<open>
  C5. The PBS header's resource-selection directive carries the node count, the node
  type, the MPI ranks per node and the OMP threads per process, in this order:
  \<open>writePBSHeader\<close> writes it so (\<open>writePBSHeader_select\<close>). The earliest program
  writes the total rank count after \<open>mpiprocs=\<close>: for 2 nodes with 4 ranks each it
  writes \<open>mpiprocs=8\<close>.
\<close>

theorem PBS_001_mpiprocs_is_total:
  "Config_001.NumberOfNodes job_001 = 2 \<and> Config_001.NumberOfMPIRanksPerNode job_001 = 4
   \<and> PBS_001 job_001 =
      ''#!/bin/bash -l\<newline>#PBS -N run1\<newline>#PBS -e logs/run1.err\<newline>#PBS -o logs/run1.out\<newline>#PBS -m abe\<newline>#PBS -M ops@example.org\<newline>#PBS -l select=2:node_type=rome:mpiprocs=8:ompthreads=2\<newline>#PBS -l walltime=01:01:01\<newline>time mpirun -x OMP_DISPLAY_ENV=TRUE -x OMP_NUM_THREADS=2 -x OMP_PLACES=cores -n 8 --map-by l3cache --bind-to l3cache ./sim --fast''"
  by (simp add: PBS_001_def job_001_def job_text)

section \<open>Claims about the task line\<close>

lemma launcher_lines_newline:
  "launcher_lines (a @ CHR ''\<newline>'' # b) = launcher_lines a @ launcher_lines b"
  by (simp add: launcher_lines_def script_lines_def split_on_sep)

lemma split_on_prefix:
  "sep \<notin> set p \<Longrightarrow>
   split_on sep (p @ r) = (p @ hd (split_on sep r)) # tl (split_on sep r)"
proof (induction p)
  case Nil
  then show ?case using split_on_nonempty [of sep r] by simp
next
  case (Cons x xs)
  then show ?case by auto
qed

lemma launcher_lines_launcher: "launcher_lines (''time mpirun'' @ r) \<noteq> []"
proof -
  have "split_on (CHR ''\<newline>'') (''time mpirun'' @ r) =
      (''time mpirun'' @ hd (split_on (CHR ''\<newline>'') r)) # tl (split_on (CHR ''\<newline>'') r)"
    by (rule split_on_prefix) simp
  then show ?thesis
    by (simp add: launcher_lines_def script_lines_def starts_with_def)
qed

lemma launcher_lines_after: "launcher_lines (a @ CHR ''\<newline>'' # ''time mpirun'' @ r) \<noteq> []"
  using launcher_lines_launcher [of r] by (simp only: launcher_lines_newline) simp

lemma PBS_begin_launcher: "launcher_lines (PBS_begin cb) \<noteq> []"
proof -
  define a where "a =
     ''#!/bin/bash -l\<newline>#PBS -N '' @ Config_begin.Name cb @
     ''\<newline>#PBS -e '' @ path_Join (Config_begin.LogDirectory cb) (Config_begin.Name cb @ ''.err'') @
     ''\<newline>#PBS -o '' @ path_Join (Config_begin.LogDirectory cb) (Config_begin.Name cb @ ''.out'') @
     ''\<newline>#PBS -m abe\<newline>#PBS -M '' @ Config_begin.Email cb @
     ''\<newline>#PBS -l select='' @ Itoa (Config_begin.NumberOfNodes cb) @
     '':node_type='' @ Config_begin.NodeType cb @
     '':mpiprocs='' @ Itoa (Config_begin.NumberOfMPIRanksPerNode cb) @
     '':ompthreads='' @ Itoa (Config_begin.NumberOfOMPThreadsPerProcess cb) @
     ''\<newline>#PBS -l walltime='' @ formatDuration (Config_begin.Walltime cb) @
     ''\<newline>\<newline>'' @
     concat (map (\<lambda>module. ''module load '' @ module @ ''\<newline>'') (Config_begin.LoadModules cb)) @
     ''\<newline>'' @
     concat (map (\<lambda>cmd. cmd @ ''\<newline>'') (Config_begin.PreScript cb)) @
     ''\<newline>'' @
     (if Config_begin.WorkingDirectory cb \<noteq> []
      then ''cd '' @ Config_begin.WorkingDirectory cb @ ''\<newline>'' else [])"
  define r where "r =
     '' -x OMP_DISPLAY_ENV=TRUE'' @
     '' -x OMP_NUM_THREADS='' @ Itoa (Config_begin.NumberOfOMPThreadsPerProcess cb) @
     '' -x OMP_PLACES=cores'' @
     '' -n '' @ Itoa (Config_begin.NumberOfNodes cb * Config_begin.NumberOfMPIRanksPerNode cb) @
     '' --map-by node:PE='' @ Itoa (Config_begin.NumberOfOMPThreadsPerProcess cb) @
     '' --bind-to core'' @
     '' '' @ Config_begin.EntryPoint cb @ ''\<newline>'' @ ''\<newline>'' @
     concat (map (\<lambda>cmd. cmd @ ''\<newline>'') (Config_begin.PostScript cb))"
  have "PBS_begin cb = a @ CHR ''\<newline>'' # ''time mpirun'' @ r"
    by (simp add: PBS_begin_def Let_def foldl_append a_def r_def)
  then show ?thesis by (simp only: launcher_lines_after not_False_eq_True)
qed

lemma mpirunString_002:
  "ExecTemplate_002 engine
     (''time mpirun'' @
      '' -x OMP_NUM_THREADS={{.NumberOfOMPThreadsPerProcess}}'' @
      '' -x OMP_PLACES=cores'' @
      '' -n {{.NumberOfMPIRanks}}'' @
      '' --map-by node:PE={{.NumberOfOMPThreadsPerProcess}}'' @
      '' --bind-to core'')
     (NewMPIRunConfig c2) =
   Inr (''time mpirun'' @
        '' -x OMP_NUM_THREADS='' @ Itoa (Config_002.NumberOfOMPThreadsPerProcess c2) @
        '' -x OMP_PLACES=cores'' @
        '' -n '' @ Itoa (Config_002.NumberOfNodes c2 * Config_002.NumberOfMPIRanksPerNode c2) @
        '' --map-by node:PE='' @ Itoa (Config_002.NumberOfOMPThreadsPerProcess c2) @
        '' --bind-to core'')"
  by (simp add: ExecTemplate_002_def Parse_def is_alnum_def fields_002_def NewMPIRunConfig_def Let_def)

lemma PBS_002_launcher: "\<exists>s. PBS_002 engine c2 = Inr s \<and> launcher_lines s \<noteq> []"
proof -
  define a where "a =
     ''#!/bin/bash -l\<newline>#PBS -N '' @ Config_002.Name c2 @
     ''\<newline>#PBS -e '' @ path_Join (Config_002.LogDirectory c2) (Config_002.Name c2 @ ''.err'') @
     ''\<newline>#PBS -o '' @ path_Join (Config_002.LogDirectory c2) (Config_002.Name c2 @ ''.out'') @
     ''\<newline>#PBS -m abe\<newline>#PBS -M '' @ Config_002.Email c2 @
     ''\<newline>#PBS -l select='' @ Itoa (Config_002.NumberOfNodes c2) @
     '':node_type='' @ Config_002.NodeType c2 @
     '':mpiprocs='' @ Itoa (Config_002.NumberOfMPIRanksPerNode c2) @
     '':ompthreads='' @ Itoa (Config_002.NumberOfOMPThreadsPerProcess c2) @
     ''\<newline>#PBS -l walltime='' @ formatDuration (Config_002.Walltime c2) @
     ''\<newline>\<newline>'' @
     concat (map (\<lambda>module. ''module load '' @ module @ ''\<newline>'') (Config_002.LoadModules c2)) @
     ''\<newline>'' @
     concat (map (\<lambda>cmd. cmd @ ''\<newline>'') (Config_002.PreScript c2)) @
     ''\<newline>'' @
     (if Config_002.WorkingDirectory c2 \<noteq> []
      then ''cd '' @ Config_002.WorkingDirectory c2 @ ''\<newline>'' else [])"
  define r where "r =
     '' -x OMP_NUM_THREADS='' @ Itoa (Config_002.NumberOfOMPThreadsPerProcess c2) @
     '' -x OMP_PLACES=cores'' @
     '' -n '' @ Itoa (Config_002.NumberOfNodes c2 * Config_002.NumberOfMPIRanksPerNode c2) @
     '' --map-by node:PE='' @ Itoa (Config_002.NumberOfOMPThreadsPerProcess c2) @
     '' --bind-to core'' @
     '' '' @ Config_002.EntryPoint c2 @ ''\<newline>'' @ ''\<newline>'' @
     concat (map (\<lambda>cmd. cmd @ ''\<newline>'') (Config_002.PostScript c2))"
  have "PBS_002 engine c2 = Inr (a @ CHR ''\<newline>'' # ''time mpirun'' @ r)"
    unfolding PBS_002_def Let_def mpirunString_002
    by (simp add: foldl_append a_def r_def)
  then show ?thesis by (simp only: launcher_lines_after not_False_eq_True sum.inject simp_thms ex_simps)
qed

text \<open>
  C3. In the program with three batch systems the task line is the template expansion
  of the launcher segment \<open>time mpirun -n\<close> with the total rank count, present exactly
  when ranksPerNode is greater than zero, followed by the job's own command; where the
  command has no template action the expansion leaves the line as it is. The PBS-only
  programs have no such gate: \<open>begin.go\<close> and the second unnamed file write the
  launcher for every job, also when ranksPerNode is zero.
\<close>

theorem launcher_segment:
  "JobData engine c k =
     (case ExecTemplate engine
             ((if 0 <s NumberOfMPIRanksPerNode c
               then ''time mpirun -n '' @ Itoa (NumberOfNodes c * NumberOfMPIRanksPerNode c) @ '' ''
               else []) @ command c)
             (NewExtendedConfig c) of
        Inl err \<Rightarrow> Inl (Errorf ''exec task string template: '' err)
      | Inr line \<Rightarrow>
         Inr (header_text c k @ setup_text c @ cd_text c @ ''\<newline>'' @ line @ ''\<newline>'' @
              lines_text (PostScript c)))
   \<and> (\<not> has_action (command c) \<longrightarrow>
      JobData engine c k =
        Inr (header_text c k @ setup_text c @ cd_text c @ ''\<newline>'' @
             (if 0 <s NumberOfMPIRanksPerNode c
              then ''time mpirun -n '' @ Itoa (NumberOfNodes c * NumberOfMPIRanksPerNode c) @ '' ''
              else []) @
             command c @ ''\<newline>'' @ lines_text (PostScript c)))
   \<and> launcher_lines (PBS_begin cb) \<noteq> []
   \<and> (\<exists>s. PBS_002 engine2 c2 = Inr s \<and> launcher_lines s \<noteq> [])"
proof -
  have g: "JobData engine c k =
     (case ExecTemplate engine
             ((if 0 <s NumberOfMPIRanksPerNode c
               then ''time mpirun -n '' @ Itoa (NumberOfNodes c * NumberOfMPIRanksPerNode c) @ '' ''
               else []) @ command c)
             (NewExtendedConfig c) of
        Inl err \<Rightarrow> Inl (Errorf ''exec task string template: '' err)
      | Inr line \<Rightarrow>
         Inr (header_text c k @ setup_text c @ cd_text c @ ''\<newline>'' @ line @ ''\<newline>'' @
              lines_text (PostScript c)))"
    using JobData_script [of engine c k] by (simp only: launcher_def)
  have p: "JobData engine c k =
        Inr (header_text c k @ setup_text c @ cd_text c @ ''\<newline>'' @
             (if 0 <s NumberOfMPIRanksPerNode c
              then ''time mpirun -n '' @ Itoa (NumberOfNodes c * NumberOfMPIRanksPerNode c) @ '' ''
              else []) @
             command c @ ''\<newline>'' @ lines_text (PostScript c))"
    if "\<not> has_action (command c)"
    using that by (simp add: JobData_plain launcher_def)
  show ?thesis
    by (intro conjI impI) (rule g, erule p, rule PBS_begin_launcher, rule PBS_002_launcher)
qed

theorem launcher_segment_witness:
  "\<not> has_action (command job)
   \<and> JobData no_engine job ''bare'' =
       Inr ''#!/bin/bash -l\<newline>\<newline>\<newline>\<newline>\<newline>\<newline>time mpirun -n 8 ./sim --fast\<newline>''
   \<and> \<not> has_action (command (job\<lparr>NumberOfMPIRanksPerNode := 0\<rparr>))
   \<and> JobData no_engine (job\<lparr>NumberOfMPIRanksPerNode := 0\<rparr>) ''bare'' =
       Inr ''#!/bin/bash -l\<newline>\<newline>\<newline>\<newline>\<newline>\<newline>./sim --fast\<newline>''"
  using launcher_segment [where c = job and engine = no_engine and k = "''bare''",
      THEN conjunct2, THEN conjunct1]
    launcher_segment [where c = "job\<lparr>NumberOfMPIRanksPerNode := 0\<rparr>" and engine = no_engine
      and k = "''bare''", THEN conjunct2, THEN conjunct1]
  by (simp add: job_text job_def)

theorem launcher_segment_counterexample:
  "Config_begin.NumberOfMPIRanksPerNode (job_begin\<lparr>Config_begin.NumberOfMPIRanksPerNode := 0\<rparr>) = 0
   \<and> PBS_begin (job_begin\<lparr>Config_begin.NumberOfMPIRanksPerNode := 0\<rparr>) =
      ''#!/bin/bash -l\<newline>#PBS -N run1\<newline>#PBS -e logs/run1.err\<newline>#PBS -o logs/run1.out\<newline>#PBS -m abe\<newline>#PBS -M ops@example.org\<newline>#PBS -l select=2:node_type=rome:mpiprocs=0:ompthreads=2\<newline>#PBS -l walltime=01:01:01\<newline>\<newline>\<newline>\<newline>\<newline>time mpirun -x OMP_DISPLAY_ENV=TRUE -x OMP_NUM_THREADS=2 -x OMP_PLACES=cores -n 0 --map-by node:PE=2 --bind-to core ./sim --fast\<newline>\<newline>''
   \<and> launcher_lines (PBS_begin (job_begin\<lparr>Config_begin.NumberOfMPIRanksPerNode := 0\<rparr>)) =
      [''time mpirun -x OMP_DISPLAY_ENV=TRUE -x OMP_NUM_THREADS=2 -x OMP_PLACES=cores -n 0 --map-by node:PE=2 --bind-to core ./sim --fast'']"
proof -
  have "PBS_begin (job_begin\<lparr>Config_begin.NumberOfMPIRanksPerNode := 0\<rparr>) =
      ''#!/bin/bash -l\<newline>#PBS -N run1\<newline>#PBS -e logs/run1.err\<newline>#PBS -o logs/run1.out\<newline>#PBS -m abe\<newline>#PBS -M ops@example.org\<newline>#PBS -l select=2:node_type=rome:mpiprocs=0:ompthreads=2\<newline>#PBS -l walltime=01:01:01\<newline>\<newline>\<newline>\<newline>\<newline>time mpirun -x OMP_DISPLAY_ENV=TRUE -x OMP_NUM_THREADS=2 -x OMP_PLACES=cores -n 0 --map-by node:PE=2 --bind-to core ./sim --fast\<newline>\<newline>''"
    by (simp add: PBS_begin_def job_begin_def job_text)
  then show ?thesis
    by (simp add: launcher_lines_def script_lines_def starts_with_def)
qed

section \<open>Claims about the Script Composer\<close>

text \<open>
  C4. A batch-system kind outside pbs, slurm and bare should give an error and no output.
  \<open>run\<close> refuses only the kind \<open>unsupported\<close>, and the \<open>switch\<close> of \<open>JobData\<close> has
  no default case: for any other unknown kind the script is written without a header
  and no error is returned.
\<close>

theorem unknown_kind_renders_body:
  assumes "k \<noteq> ''pbs''" "k \<noteq> ''slurm''" "k \<noteq> ''bare''"
    and "k \<noteq> ''autodetect''" "k \<noteq> ''unsupported''"
    and "\<not> has_action (command c)"
  shows "run onPath engine k c =
     Inr (setup_text c @ cd_text c @ ''\<newline>'' @ launcher c @ command c @ ''\<newline>'' @
          lines_text (PostScript c) @ ''\<newline>'')"
  using assms by (simp add: run_plain header_text_def)

theorem unknown_kind_renders_body_witness:
  "''foo'' \<noteq> ''pbs'' \<and> ''foo'' \<noteq> ''slurm'' \<and> ''foo'' \<noteq> ''bare''
   \<and> ''foo'' \<noteq> ''autodetect'' \<and> ''foo'' \<noteq> ''unsupported''
   \<and> \<not> has_action (command job)
   \<and> run (\<lambda>file. False) no_engine ''foo'' job =
       Inr ''\<newline>\<newline>\<newline>\<newline>time mpirun -n 8 ./sim --fast\<newline>\<newline>''"
  using unknown_kind_renders_body [of "''foo''" job "\<lambda>file. False" no_engine]
  by (simp add: job_text job_def)

text \<open>
  C6. No program of the repository checks that the executable is non-empty. For a job
  whose executable is the empty string the script is composed as for any other job: the
  task line is the template expansion of a line with an empty segment where the
  executable would be, and no error is reported for it.
\<close>

theorem empty_executable_is_rendered:
  "Executable c = [] \<longrightarrow>
     JobData engine c k =
       (case ExecTemplate engine
               (launcher c @
                Join ((if RunTime c = [] then [] else [Join (RunTime c) '' '']) @ [[]] @
                      (if Arguments c = [] then [] else [Join (Arguments c) '' ''])) '' '')
               (NewExtendedConfig c) of
          Inl err \<Rightarrow> Inl (Errorf ''exec task string template: '' err)
        | Inr line \<Rightarrow>
           Inr (header_text c k @ setup_text c @ cd_text c @ ''\<newline>'' @ line @ ''\<newline>'' @
                lines_text (PostScript c)))
     \<and> (\<not> has_action (command c) \<longrightarrow>
          JobData engine c k =
            Inr (header_text c k @ setup_text c @ cd_text c @ ''\<newline>'' @ launcher c @
                 Join ((if RunTime c = [] then [] else [Join (RunTime c) '' '']) @ [[]] @
                       (if Arguments c = [] then [] else [Join (Arguments c) '' ''])) '' '' @
                 ''\<newline>'' @ lines_text (PostScript c)))"
proof (intro impI conjI)
  assume e: "Executable c = []"
  then have c: "command c =
      Join ((if RunTime c = [] then [] else [Join (RunTime c) '' '']) @ [[]] @
            (if Arguments c = [] then [] else [Join (Arguments c) '' ''])) '' ''"
    by (simp add: command_def)
  show "JobData engine c k =
       (case ExecTemplate engine
               (launcher c @
                Join ((if RunTime c = [] then [] else [Join (RunTime c) '' '']) @ [[]] @
                      (if Arguments c = [] then [] else [Join (Arguments c) '' ''])) '' '')
               (NewExtendedConfig c) of
          Inl err \<Rightarrow> Inl (Errorf ''exec task string template: '' err)
        | Inr line \<Rightarrow>
           Inr (header_text c k @ setup_text c @ cd_text c @ ''\<newline>'' @ line @ ''\<newline>'' @
                lines_text (PostScript c)))"
    using JobData_script [of engine c k] by (simp only: c)
  assume h: "\<not> has_action (command c)"
  show "JobData engine c k =
            Inr (header_text c k @ setup_text c @ cd_text c @ ''\<newline>'' @ launcher c @
                 Join ((if RunTime c = [] then [] else [Join (RunTime c) '' '']) @ [[]] @
                       (if Arguments c = [] then [] else [Join (Arguments c) '' ''])) '' '' @
                 ''\<newline>'' @ lines_text (PostScript c))"
    using JobData_plain [OF h, of engine k] by (simp only: c)
qed

theorem empty_executable_is_rendered_witness:
  "Executable (job\<lparr>Executable := []\<rparr>) = []
   \<and> \<not> has_action (command (job\<lparr>Executable := []\<rparr>))
   \<and> JobData no_engine (job\<lparr>Executable := []\<rparr>) ''pbs'' =
       Inr ''#!/bin/bash -l\<newline>#PBS -N run1\<newline>#PBS -e logs/run1.err\<newline>#PBS -o logs/run1.out\<newline>#PBS -m abe\<newline>#PBS -M ops@example.org\<newline>#PBS -l select=2:node_type=rome:mpiprocs=4:ompthreads=2\<newline>#PBS -l walltime=01:01:01\<newline>\<newline>\<newline>\<newline>\<newline>\<newline>time mpirun -n 8  --fast\<newline>''"
proof -
  have e: "Executable (job\<lparr>Executable := []\<rparr>) = []" by simp
  have p: "\<not> has_action (command (job\<lparr>Executable := []\<rparr>))"
    by (simp add: command_def job_def)
  show ?thesis
    using empty_executable_is_rendered [where c = "job\<lparr>Executable := []\<rparr>" and engine = no_engine
        and k = "''pbs''", THEN mp, OF e, THEN conjunct2, THEN mp, OF p] p
    by (simp add: job_text job_def)
qed

theorem empty_executable_counterexample:
  "Executable (job\<lparr>Executable := []\<rparr>) = []
   \<and> run (\<lambda>file. False) no_engine ''bare'' (job\<lparr>Executable := []\<rparr>) =
       Inr ''#!/bin/bash -l\<newline>\<newline>\<newline>\<newline>\<newline>\<newline>time mpirun -n 8  --fast\<newline>\<newline>''"
proof -
  have "\<not> has_action (command (job\<lparr>Executable := []\<rparr>))"
    by (simp add: command_def job_def)
  then show ?thesis
    by (simp add: run_plain) (simp add: job_text job_def)
qed

section \<open>Claims about the flag for the OpenMP environment\<close>


lemma templated_job_script:
  "JobData engine
      (job\<lparr>RunTime := [''env'', ''OMP_DISPLAY_ENV={{.PrintOMPEnvironment}}''],
           PrintOMPEnvironment := v\<rparr>) ''bare'' =
     Inr (''#!/bin/bash -l\<newline>\<newline>\<newline>\<newline>\<newline>\<newline>time mpirun -n 8 env OMP_DISPLAY_ENV='' @
          print_bool v @ '' ./sim --fast\<newline>'')"
proof -
  have e: "ExecTemplate engine
       ''time mpirun -n 8 env OMP_DISPLAY_ENV={{.PrintOMPEnvironment}} ./sim --fast''
       (NewExtendedConfig (job\<lparr>RunTime := [''env'', ''OMP_DISPLAY_ENV={{.PrintOMPEnvironment}}''],
           PrintOMPEnvironment := v\<rparr>)) =
     Inr (''time mpirun -n 8 env OMP_DISPLAY_ENV='' @ print_bool v @ '' ./sim --fast'')"
    by (simp add: ExecTemplate_def Parse_def is_alnum_def fields_def NewExtendedConfig_def Let_def)
  have l: "launcher (job\<lparr>RunTime := [''env'', ''OMP_DISPLAY_ENV={{.PrintOMPEnvironment}}''],
           PrintOMPEnvironment := v\<rparr>) @
        command (job\<lparr>RunTime := [''env'', ''OMP_DISPLAY_ENV={{.PrintOMPEnvironment}}''],
           PrintOMPEnvironment := v\<rparr>) =
       ''time mpirun -n 8 env OMP_DISPLAY_ENV={{.PrintOMPEnvironment}} ./sim --fast''"
    by (simp add: job_text job_def)
  show ?thesis
    unfolding JobData_script l e by (simp add: job_text job_def)
qed





section \<open>Claims about the working-directory step\<close>

lemma JobData_cd_step:
  assumes "CHR ''\<newline>'' \<notin> set (WorkingDirectory c)"
    and "ExecTemplate engine (launcher c @ command c) (NewExtendedConfig c) = Inr line"
  shows "\<exists>script. JobData engine c k = Inr script
     \<and> cd_lines script =
         cd_lines (header_text c k @ setup_text c) @
         (if WorkingDirectory c = [] then [] else [''cd '' @ WorkingDirectory c]) @
         cd_lines (''\<newline>'' @ line @ ''\<newline>'' @ lines_text (PostScript c))"
proof -
  have "JobData engine c k =
      Inr (header_text c k @ setup_text c @ cd_text c @ ''\<newline>'' @
           (line @ ''\<newline>'' @ lines_text (PostScript c)))"
    unfolding JobData_script assms(2) by simp
  moreover have "cd_lines (header_text c k @ setup_text c @ cd_text c @ ''\<newline>'' @
           (line @ ''\<newline>'' @ lines_text (PostScript c))) =
         cd_lines (header_text c k @ setup_text c) @
         (if WorkingDirectory c = [] then [] else [''cd '' @ WorkingDirectory c]) @
         cd_lines (''\<newline>'' @ (line @ ''\<newline>'' @ lines_text (PostScript c)))"
    using assms(1) by (rule cd_lines_of_script)
  ultimately show ?thesis by simp
qed

lemma JobData_cd_step_example:
  "JobData no_engine (job\<lparr>WorkingDirectory := ''/work''\<rparr>) ''bare'' =
     Inr ''#!/bin/bash -l\<newline>\<newline>\<newline>\<newline>\<newline>cd /work\<newline>\<newline>time mpirun -n 8 ./sim --fast\<newline>''
   \<and> cd_lines ''#!/bin/bash -l\<newline>\<newline>\<newline>\<newline>\<newline>cd /work\<newline>\<newline>time mpirun -n 8 ./sim --fast\<newline>''
       = [''cd /work'']
   \<and> JobData no_engine job ''bare'' =
     Inr ''#!/bin/bash -l\<newline>\<newline>\<newline>\<newline>\<newline>\<newline>time mpirun -n 8 ./sim --fast\<newline>''
   \<and> cd_lines ''#!/bin/bash -l\<newline>\<newline>\<newline>\<newline>\<newline>\<newline>time mpirun -n 8 ./sim --fast\<newline>'' = []"
proof -
  have p: "\<not> has_action (command (job\<lparr>WorkingDirectory := ''/work''\<rparr>))"
    "\<not> has_action (command job)"
    by (simp_all add: command_def job_def)
  have "JobData no_engine (job\<lparr>WorkingDirectory := ''/work''\<rparr>) ''bare'' =
     Inr ''#!/bin/bash -l\<newline>\<newline>\<newline>\<newline>\<newline>cd /work\<newline>\<newline>time mpirun -n 8 ./sim --fast\<newline>''"
    by (simp add: JobData_plain p) (simp add: job_text job_def)
  moreover have "JobData no_engine job ''bare'' =
     Inr ''#!/bin/bash -l\<newline>\<newline>\<newline>\<newline>\<newline>\<newline>time mpirun -n 8 ./sim --fast\<newline>''"
    by (simp add: JobData_plain p) (simp add: job_text job_def)
  ultimately show ?thesis
    by (simp add: cd_lines_def script_lines_def starts_with_def)
qed

text \<open>
  C9. The working-directory step of \<open>JobData\<close> writes no line when workingDirectory is
  empty and the one line \<open>cd\<close> with the directory when it is not
  (\<open>JobData_cd_step\<close>, \<open>JobData_cd_step_example\<close>); \<open>PBS_begin\<close> and \<open>PBS_002\<close>
  have the same step. The earliest program declares workingDirectory and never reads
  it: for the working directory \<open>/work\<close> its script has no \<open>cd\<close> line, and no
  job's script depends on the field.
\<close>

theorem PBS_001_ignores_WorkingDirectory:
  "Config_001.WorkingDirectory (job_001\<lparr>Config_001.WorkingDirectory := ''/work''\<rparr>) = ''/work''
   \<and> PBS_001 (job_001\<lparr>Config_001.WorkingDirectory := ''/work''\<rparr>) =
      ''#!/bin/bash -l\<newline>#PBS -N run1\<newline>#PBS -e logs/run1.err\<newline>#PBS -o logs/run1.out\<newline>#PBS -m abe\<newline>#PBS -M ops@example.org\<newline>#PBS -l select=2:node_type=rome:mpiprocs=8:ompthreads=2\<newline>#PBS -l walltime=01:01:01\<newline>time mpirun -x OMP_DISPLAY_ENV=TRUE -x OMP_NUM_THREADS=2 -x OMP_PLACES=cores -n 8 --map-by l3cache --bind-to l3cache ./sim --fast''
   \<and> cd_lines (PBS_001 (job_001\<lparr>Config_001.WorkingDirectory := ''/work''\<rparr>)) = []
   \<and> PBS_001 (c1\<lparr>Config_001.WorkingDirectory := w\<rparr>) = PBS_001 c1"
proof -
  have a: "PBS_001 (c1\<lparr>Config_001.WorkingDirectory := w\<rparr>) = PBS_001 c1" for c1 w
    by (simp add: PBS_001_def)
  have b: "PBS_001 job_001 =
      ''#!/bin/bash -l\<newline>#PBS -N run1\<newline>#PBS -e logs/run1.err\<newline>#PBS -o logs/run1.out\<newline>#PBS -m abe\<newline>#PBS -M ops@example.org\<newline>#PBS -l select=2:node_type=rome:mpiprocs=8:ompthreads=2\<newline>#PBS -l walltime=01:01:01\<newline>time mpirun -x OMP_DISPLAY_ENV=TRUE -x OMP_NUM_THREADS=2 -x OMP_PLACES=cores -n 8 --map-by l3cache --bind-to l3cache ./sim --fast''"
    by (simp add: PBS_001_def job_001_def job_text)
  show ?thesis
    unfolding a b by (simp add: cd_lines_def script_lines_def starts_with_def)
qed

end
